theory Spec2Isabelle
  imports Main "HOL-Library.Word" "HOL-Library.AList" "HOL-Library.Multiset"
begin

section \<open>Values of the configuration schema\<close>

text \<open>
  The expanders of \<^verbatim>\<open>virtual_machine.go\<close> read Go values of type \<^verbatim>\<open>interface{}\<close>
  and the flatteners build them. A value is nil, a string, a bool, an \<^verbatim>\<open>int\<close> (64 bits
  on the platforms the provider is built for), a \<^verbatim>\<open>[]interface{}\<close>, a
  \<^verbatim>\<open>map[string]interface{}\<close> (an association list, read with \<open>map_of\<close>), a
  \<^verbatim>\<open>*schema.Set\<close> (given by the list its \<^verbatim>\<open>List()\<close> method returns), a \<^verbatim>\<open>[]string\<close>,
  or a string of the named type \<^verbatim>\<open>compute.DiskCreateOptionTypes\<close>.
\<close>

type_synonym int32 = "32 word"
type_synonym int64 = "64 word"

datatype val =
    VNil
  | VString string
  | VBool bool
  | VInt int64
  | VList "val list"
  | VMap "(string \<times> val) list"
  | VSet "val list"
  | VStringList "string list"
  | VDiskCreateOptionTypes string

section \<open>Failures\<close>

text \<open>
  A Go function of this file ends in one of three ways: it returns a value, it returns a
  non-nil \<^verbatim>\<open>error\<close>, or it panics (an index out of range, a failed single-value type
  assertion, a read through a nil pointer). An \<^verbatim>\<open>error\<close> is either built by
  \<^verbatim>\<open>fmt.Errorf\<close> (kept as the format string and its arguments) or comes from a
  collaborator (the identifier parser, the disks client).
\<close>

datatype panic = IndexOutOfRange | InterfaceConversion | NilPointerDereference

datatype error = Errorf string "string list" | ErrorString string

datatype failure = Panic panic | Failed error

fun bind_result :: "failure + 'a \<Rightarrow> ('a \<Rightarrow> failure + 'b) \<Rightarrow> failure + 'b" where
  "bind_result (Inl f) k = Inl f"
| "bind_result (Inr x) k = k x"

text \<open>\<^verbatim>\<open>m[key]\<close> on a Go map: the nil interface when the key is absent.\<close>

definition index_map :: "(string \<times> val) list \<Rightarrow> string \<Rightarrow> val" where
  "index_map m k = (case map_of m k of None \<Rightarrow> VNil | Some v \<Rightarrow> v)"

text \<open>\<^verbatim>\<open>input[0]\<close> on a slice: a panic when the slice is empty.\<close>

definition index0 :: "val list \<Rightarrow> failure + val" where
  "index0 xs = (case xs of [] \<Rightarrow> Inl (Panic IndexOutOfRange) | x # _ \<Rightarrow> Inr x)"

text \<open>Single-value type assertions \<^verbatim>\<open>v.(T)\<close>: a panic when the dynamic type is not \<^verbatim>\<open>T\<close>.\<close>

fun assert_map :: "val \<Rightarrow> failure + (string \<times> val) list" where
  "assert_map (VMap m) = Inr m"
| "assert_map _ = Inl (Panic InterfaceConversion)"

fun assert_string :: "val \<Rightarrow> failure + string" where
  "assert_string (VString s) = Inr s"
| "assert_string _ = Inl (Panic InterfaceConversion)"

fun assert_bool :: "val \<Rightarrow> failure + bool" where
  "assert_bool (VBool b) = Inr b"
| "assert_bool _ = Inl (Panic InterfaceConversion)"

fun assert_int :: "val \<Rightarrow> failure + int64" where
  "assert_int (VInt n) = Inr n"
| "assert_int _ = Inl (Panic InterfaceConversion)"

fun assert_list :: "val \<Rightarrow> failure + val list" where
  "assert_list (VList xs) = Inr xs"
| "assert_list _ = Inl (Panic InterfaceConversion)"

fun assert_set :: "val \<Rightarrow> failure + val list" where
  "assert_set (VSet xs) = Inr xs"
| "assert_set _ = Inl (Panic InterfaceConversion)"

text \<open>Two-value type assertions \<^verbatim>\<open>x, ok := v.(T)\<close>: the zero value and false, no panic.\<close>

fun string_ok :: "val \<Rightarrow> string \<times> bool" where
  "string_ok (VString s) = (s, True)"
| "string_ok _ = ('''', False)"

fun int_ok :: "val \<Rightarrow> int64 \<times> bool" where
  "int_ok (VInt n) = (n, True)"
| "int_ok _ = (0, False)"

section \<open>Additional capabilities\<close>

record AdditionalCapabilities =
  UltraSSDEnabled :: "bool option"

text \<open>Lines 40 to 50. \<^verbatim>\<open>utils.Bool b\<close> is a pointer to \<open>b\<close>: \<open>Some b\<close>.\<close>

definition expandVirtualMachineAdditionalCapabilities ::
  "val list \<Rightarrow> failure + AdditionalCapabilities" where
  "expandVirtualMachineAdditionalCapabilities input =
     (if length input > 0 then
        bind_result (index0 input) (\<lambda>v.
        bind_result (assert_map v) (\<lambda>raw.
        bind_result (assert_bool (index_map raw ''ultra_ssd_enabled'')) (\<lambda>b.
        Inr \<lparr>UltraSSDEnabled = Some b\<rparr>)))
      else Inr \<lparr>UltraSSDEnabled = None\<rparr>)"

text \<open>Lines 52 to 68.\<close>

definition flattenVirtualMachineAdditionalCapabilities ::
  "AdditionalCapabilities option \<Rightarrow> val list" where
  "flattenVirtualMachineAdditionalCapabilities input =
     (case input of
        None \<Rightarrow> []
      | Some c \<Rightarrow>
          (let ultraSsdEnabled = (case UltraSSDEnabled c of None \<Rightarrow> False | Some b \<Rightarrow> b)
           in [VMap [(''ultra_ssd_enabled'', VBool ultraSsdEnabled)]]))"

section \<open>Identity\<close>

text \<open>
  Modelled from the spec: the identity kinds of the SDK (\<^verbatim>\<open>compute.ResourceIdentityType\<close>,
  a named string type declared outside this file): the "none" kind, \<open>SystemAssigned\<close>,
  \<open>UserAssigned\<close> and \<open>SystemAssigned, UserAssigned\<close>.
\<close>

definition ResourceIdentityTypeNone :: string where
  "ResourceIdentityTypeNone = ''None''"

definition ResourceIdentityTypeSystemAssigned :: string where
  "ResourceIdentityTypeSystemAssigned = ''SystemAssigned''"

definition ResourceIdentityTypeUserAssigned :: string where
  "ResourceIdentityTypeUserAssigned = ''UserAssigned''"

definition ResourceIdentityTypeSystemAssignedUserAssigned :: string where
  "ResourceIdentityTypeSystemAssignedUserAssigned = ''SystemAssigned, UserAssigned''"

record UserAssignedIdentitiesValue =
  UserAssignedIdentitiesValue_PrincipalID :: "string option"
  UserAssignedIdentitiesValue_ClientID :: "string option"

text \<open>
  \<^verbatim>\<open>UserAssignedIdentities\<close> is a Go map, nil (\<open>None\<close>) or an association list with one
  entry per key; \<^verbatim>\<open>m[k] = v\<close> is \<open>AList.update k v m\<close>.
\<close>

record VirtualMachineIdentity =
  Identity_PrincipalID :: "string option"
  Identity_TenantID :: "string option"
  Identity_Type :: string
  Identity_UserAssignedIdentities :: "(string \<times> UserAssignedIdentitiesValue) list option"

text \<open>Lines 126 to 128, the loop over \<^verbatim>\<open>identityIdsRaw\<close>.\<close>

fun identityIds_loop ::
  "val list \<Rightarrow> (string \<times> UserAssignedIdentitiesValue) list
     \<Rightarrow> failure + (string \<times> UserAssignedIdentitiesValue) list" where
  "identityIds_loop [] identityIds = Inr identityIds"
| "identityIds_loop (v # vs) identityIds =
     (case assert_string v of
        Inl f \<Rightarrow> Inl f
      | Inr k \<Rightarrow>
          identityIds_loop vs
            (AList.update k
               \<lparr>UserAssignedIdentitiesValue_PrincipalID = None,
                UserAssignedIdentitiesValue_ClientID = None\<rparr> identityIds))"

text \<open>Lines 110 to 139.\<close>

definition expandVirtualMachineIdentity :: "val list \<Rightarrow> failure + VirtualMachineIdentity" where
  "expandVirtualMachineIdentity input =
     (if length input = 0 then
        Inr \<lparr>Identity_PrincipalID = None, Identity_TenantID = None,
             Identity_Type = ResourceIdentityTypeNone,
             Identity_UserAssignedIdentities = None\<rparr>
      else
        bind_result (index0 input) (\<lambda>v.
        bind_result (assert_map v) (\<lambda>raw.
        bind_result (assert_string (index_map raw ''type'')) (\<lambda>t.
        let identity = \<lparr>Identity_PrincipalID = None, Identity_TenantID = None,
                         Identity_Type = t, Identity_UserAssignedIdentities = None\<rparr>
        in
        bind_result (assert_set (index_map raw ''identity_ids'')) (\<lambda>identityIdsRaw.
        bind_result (identityIds_loop identityIdsRaw []) (\<lambda>identityIds.
        if length identityIds > 0 then
          if Identity_Type identity \<noteq> ResourceIdentityTypeUserAssigned
             \<and> Identity_Type identity \<noteq> ResourceIdentityTypeSystemAssignedUserAssigned
          then Inl (Failed (Errorf
                 ''`identity_ids` can only be specified when `type` includes `UserAssigned`'' []))
          else Inr (identity\<lparr>Identity_UserAssignedIdentities := Some identityIds\<rparr>)
        else Inr identity))))))"

text \<open>
  Lines 141 to 171. Go leaves the order in which \<^verbatim>\<open>range\<close> visits the keys of a map
  unspecified: \<open>range_order\<close> is the order the runtime picks, applied to the keys.
\<close>

definition flattenVirtualMachineIdentity ::
  "(string list \<Rightarrow> string list) \<Rightarrow> VirtualMachineIdentity option \<Rightarrow> val list" where
  "flattenVirtualMachineIdentity range_order input =
     (case input of
        None \<Rightarrow> []
      | Some i \<Rightarrow>
          if Identity_Type i = ResourceIdentityTypeNone then []
          else
            (let identityIds =
                   (case Identity_UserAssignedIdentities i of
                      None \<Rightarrow> []
                    | Some m \<Rightarrow> range_order (map fst m));
                 principalId = (case Identity_PrincipalID i of None \<Rightarrow> '''' | Some p \<Rightarrow> p);
                 tenantId = (case Identity_TenantID i of None \<Rightarrow> '''' | Some t \<Rightarrow> t)
             in [VMap [(''type'', VString (Identity_Type i)),
                       (''identity_ids'', VStringList identityIds),
                       (''principal_id'', VString principalId),
                       (''tenant_id'', VString tenantId)]]))"

section \<open>Network interface references\<close>

record NetworkInterfaceReferenceProperties =
  Primary :: "bool option"

record NetworkInterfaceReference =
  NetworkInterfaceReference_ID :: "string option"
  NetworkInterfaceReference_Properties :: "NetworkInterfaceReferenceProperties option"

text \<open>Lines 176 to 183, the loop with its index \<open>i\<close>.\<close>

fun expandVirtualMachineNetworkInterfaceIDs_loop ::
  "nat \<Rightarrow> val list \<Rightarrow> NetworkInterfaceReference list
     \<Rightarrow> failure + NetworkInterfaceReference list" where
  "expandVirtualMachineNetworkInterfaceIDs_loop i [] output = Inr output"
| "expandVirtualMachineNetworkInterfaceIDs_loop i (v # vs) output =
     (case assert_string v of
        Inl f \<Rightarrow> Inl f
      | Inr s \<Rightarrow>
          expandVirtualMachineNetworkInterfaceIDs_loop (Suc i) vs
            (output @ [\<lparr>NetworkInterfaceReference_ID = Some s,
                        NetworkInterfaceReference_Properties =
                          Some \<lparr>Primary = Some (i = 0)\<rparr>\<rparr>]))"

definition expandVirtualMachineNetworkInterfaceIDs ::
  "val list \<Rightarrow> failure + NetworkInterfaceReference list" where
  "expandVirtualMachineNetworkInterfaceIDs input =
     expandVirtualMachineNetworkInterfaceIDs_loop 0 input []"

text \<open>Lines 188 to 204.\<close>

definition flattenVirtualMachineNetworkInterfaceIDs ::
  "NetworkInterfaceReference list option \<Rightarrow> val list" where
  "flattenVirtualMachineNetworkInterfaceIDs input =
     (case input of
        None \<Rightarrow> []
      | Some refs \<Rightarrow>
          concat (map (\<lambda>v. case NetworkInterfaceReference_ID v of
                              None \<Rightarrow> []
                            | Some s \<Rightarrow> [VString s]) refs))"

section \<open>Disks: the API objects\<close>

text \<open>
  Modelled from the spec: the create-options of the SDK
  (\<^verbatim>\<open>compute.DiskCreateOptionTypes\<close>, a named string type declared outside this file):
  "FromImage", "Empty" and "Attach".
\<close>

definition DiskCreateOptionTypesFromImage :: string where
  "DiskCreateOptionTypesFromImage = ''FromImage''"

definition DiskCreateOptionTypesEmpty :: string where
  "DiskCreateOptionTypesEmpty = ''Empty''"

definition DiskCreateOptionTypesAttach :: string where
  "DiskCreateOptionTypesAttach = ''Attach''"

text \<open>
  The SDK's structs, with the fields this file reads or writes. A pointer field is an
  \<open>option\<close>, nil being \<open>None\<close>; \<^verbatim>\<open>utils.String\<close>, \<^verbatim>\<open>utils.Bool\<close> and \<^verbatim>\<open>utils.Int32\<close>
  return a pointer to their argument, \<open>Some\<close>. The named string types
  (\<^verbatim>\<open>CachingTypes\<close>, \<^verbatim>\<open>StorageAccountTypes\<close>, \<^verbatim>\<open>DiffDiskOptions\<close>,
  \<^verbatim>\<open>OperatingSystemTypes\<close>) are strings.
\<close>

record DiskEncryptionSetParameters =
  DiskEncryptionSet_ID :: "string option"

record ManagedDiskParameters =
  ManagedDisk_StorageAccountType :: string
  ManagedDisk_DiskEncryptionSet :: "DiskEncryptionSetParameters option"
  ManagedDisk_ID :: "string option"

record DiffDiskSettings =
  DiffDiskSettings_Option :: string

record OSDisk =
  OSDisk_OsType :: string
  OSDisk_Name :: "string option"
  OSDisk_Caching :: string
  OSDisk_WriteAcceleratorEnabled :: "bool option"
  OSDisk_DiffDiskSettings :: "DiffDiskSettings option"
  OSDisk_CreateOption :: string
  OSDisk_DiskSizeGB :: "int32 option"
  OSDisk_ManagedDisk :: "ManagedDiskParameters option"

record DataDisk =
  DataDisk_Lun :: "int32 option"
  DataDisk_Name :: "string option"
  DataDisk_Caching :: string
  DataDisk_WriteAcceleratorEnabled :: "bool option"
  DataDisk_CreateOption :: string
  DataDisk_DiskSizeGB :: "int32 option"
  DataDisk_ManagedDisk :: "ManagedDiskParameters option"
  DataDisk_DiskIOPSReadWrite :: "int64 option"
  DataDisk_DiskMBpsReadWrite :: "int64 option"

text \<open>
  \<^verbatim>\<open>compute.Disk\<close>, what the disk lookup returns. Its \<^verbatim>\<open>Response\<close> is the HTTP status
  code of the answer, \<open>None\<close> when there was no answer. The struct (SDK version
  2020-06-01) embeds the pointer \<^verbatim>\<open>*DiskProperties\<close>, whose fields \<^verbatim>\<open>DiskSizeGB\<close> and
  \<^verbatim>\<open>Encryption\<close> are promoted: the source tests \<^verbatim>\<open>disk.DiskProperties != nil\<close> and reads
  \<^verbatim>\<open>existingDisk.DiskSizeGB\<close> and \<^verbatim>\<open>disk.Encryption\<close> through it, which panics when the
  pointer is nil.
\<close>

type_synonym Response = "int option"

record DiskSku =
  DiskSku_Name :: string

record Encryption =
  Encryption_DiskEncryptionSetID :: "string option"

record DiskProperties =
  DiskProperties_DiskSizeGB :: "int32 option"
  DiskProperties_Encryption :: "Encryption option"

record Disk =
  Disk_Response :: Response
  Disk_Sku :: "DiskSku option"
  Disk_DiskProperties :: "DiskProperties option"

section \<open>Collaborators\<close>

text \<open>
  Three functions the two lookup paths call are declared outside this file and are
  parameters here: \<^verbatim>\<open>parse.ManagedDiskID\<close> (an error, or the resource group and name of the
  identifier), \<^verbatim>\<open>disksClient.Get\<close> (a \<^verbatim>\<open>Disk\<close> together with an error or nil) and
  \<^verbatim>\<open>utils.ResponseWasNotFound\<close>. The context \<^verbatim>\<open>ctx\<close> only bounds the time of the call.
  \<^verbatim>\<open>d.GetOk\<close> of \<^verbatim>\<open>schema.ResourceData\<close> returns the value of an attribute and whether it
  is set to a non-zero value.
\<close>

record ManagedDiskId =
  ManagedDiskId_ResourceGroup :: string
  ManagedDiskId_Name :: string

record deps =
  ManagedDiskID :: "string \<Rightarrow> error + ManagedDiskId"
  DisksClient_Get :: "string \<Rightarrow> string \<Rightarrow> Disk \<times> error option"
  ResponseWasNotFound :: "Response \<Rightarrow> bool"

record ResourceData =
  GetOk :: "string \<Rightarrow> val \<times> bool"

section \<open>OS disk\<close>

text \<open>
  Lines 375 to 414. \<^verbatim>\<open>int32(osDiskSize)\<close> keeps the low 32 bits; \<^verbatim>\<open>osDiskSize > 0\<close>
  compares signed.
\<close>

definition expandVirtualMachineOSDisk :: "val list \<Rightarrow> string \<Rightarrow> failure + OSDisk" where
  "expandVirtualMachineOSDisk input osType =
     bind_result (index0 input) (\<lambda>v.
     bind_result (assert_map v) (\<lambda>raw.
     bind_result (assert_string (index_map raw ''caching'')) (\<lambda>caching.
     bind_result (assert_string (index_map raw ''storage_account_type'')) (\<lambda>storageAccountType.
     bind_result (assert_bool (index_map raw ''write_accelerator_enabled'')) (\<lambda>writeAccelerator.
     let managedDisk = \<lparr>ManagedDisk_StorageAccountType = storageAccountType,
                         ManagedDisk_DiskEncryptionSet = None,
                         ManagedDisk_ID = None\<rparr>;
         disk = \<lparr>OSDisk_OsType = osType,
                  OSDisk_Name = None,
                  OSDisk_Caching = caching,
                  OSDisk_WriteAcceleratorEnabled = Some writeAccelerator,
                  OSDisk_DiffDiskSettings = None,
                  OSDisk_CreateOption = DiskCreateOptionTypesFromImage,
                  OSDisk_DiskSizeGB = None,
                  OSDisk_ManagedDisk = Some managedDisk\<rparr>
     in
     bind_result (assert_int (index_map raw ''disk_size_gb'')) (\<lambda>osDiskSize.
     let disk = (if 0 < sint osDiskSize
                 then disk\<lparr>OSDisk_DiskSizeGB := Some (ucast osDiskSize)\<rparr>
                 else disk)
     in
     bind_result (assert_list (index_map raw ''diff_disk_settings'')) (\<lambda>diffDiskSettingsRaw.
     bind_result
       (if length diffDiskSettingsRaw > 0 then
          bind_result (index0 diffDiskSettingsRaw) (\<lambda>d0.
          bind_result (assert_map d0) (\<lambda>diffDiskRaw.
          bind_result (assert_string (index_map diffDiskRaw ''option'')) (\<lambda>opt.
          Inr (disk\<lparr>OSDisk_DiffDiskSettings :=
                       Some \<lparr>DiffDiskSettings_Option = opt\<rparr>\<rparr>))))
        else Inr disk) (\<lambda>disk.
     bind_result (assert_string (index_map raw ''disk_encryption_set_id'')) (\<lambda>id.
     let disk = (if id \<noteq> ''''
                 then disk\<lparr>OSDisk_ManagedDisk :=
                        Some (managedDisk\<lparr>ManagedDisk_DiskEncryptionSet :=
                                Some \<lparr>DiskEncryptionSet_ID = Some id\<rparr>\<rparr>)\<rparr>
                 else disk)
     in
     bind_result (assert_string (index_map raw ''name'')) (\<lambda>name.
     let disk = (if name \<noteq> '''' then disk\<lparr>OSDisk_Name := Some name\<rparr> else disk)
     in Inr disk))))))))))"

text \<open>
  Lines 416 to 496. The three locals the lookup may overwrite
  (\<^verbatim>\<open>diskEncryptionSetId\<close>, \<^verbatim>\<open>storageAccountType\<close>, \<^verbatim>\<open>diskSizeGb\<close>) are threaded as a
  triple. \<^verbatim>\<open>int(*input.DiskSizeGB)\<close> extends the sign.
\<close>

definition flattenVirtualMachineOSDisk :: "deps \<Rightarrow> OSDisk option \<Rightarrow> failure + val list" where
  "flattenVirtualMachineOSDisk deps input' =
     (case input' of
        None \<Rightarrow> Inr []
      | Some input \<Rightarrow>
         (let diffDiskSettings =
                (case OSDisk_DiffDiskSettings input of
                   None \<Rightarrow> []
                 | Some s \<Rightarrow> [VMap [(''option'', VString (DiffDiskSettings_Option s))]]);
              diskSizeGb =
                (case OSDisk_DiskSizeGB input of
                   None \<Rightarrow> (0 :: int64)
                 | Some n \<Rightarrow> if n \<noteq> 0 then scast n else 0);
              name = (case OSDisk_Name input of None \<Rightarrow> '''' | Some n \<Rightarrow> n);
              diskEncryptionSetId = '''';
              storageAccountType = ''''
          in
          bind_result
            (case OSDisk_ManagedDisk input of
               None \<Rightarrow> Inr (diskEncryptionSetId, storageAccountType, diskSizeGb)
             | Some managedDisk \<Rightarrow>
                (let storageAccountType = ManagedDisk_StorageAccountType managedDisk in
                 case ManagedDisk_ID managedDisk of
                   None \<Rightarrow> Inr (diskEncryptionSetId, storageAccountType, diskSizeGb)
                 | Some managedDiskId \<Rightarrow>
                    (case ManagedDiskID deps managedDiskId of
                       Inl err \<Rightarrow> Inl (Failed err)
                     | Inr id' \<Rightarrow>
                        (case DisksClient_Get deps (ManagedDiskId_ResourceGroup id')
                                (ManagedDiskId_Name id') of
                           (disk, err) \<Rightarrow>
                             bind_result
                               (case err of
                                  None \<Rightarrow> Inr ()
                                | Some e \<Rightarrow>
                                    if \<not> ResponseWasNotFound deps (Disk_Response disk)
                                    then Inl (Failed e) else Inr ()) (\<lambda>_.
                             if \<not> ResponseWasNotFound deps (Disk_Response disk) then
                               (let storageAccountType =
                                      (case Disk_Sku disk of
                                         None \<Rightarrow> storageAccountType
                                       | Some sku \<Rightarrow>
                                           if storageAccountType = '''' then DiskSku_Name sku
                                           else storageAccountType);
                                    diskSizeGb =
                                      (if diskSizeGb = 0 then
                                         (case Disk_DiskProperties disk of
                                            None \<Rightarrow> diskSizeGb
                                          | Some props \<Rightarrow>
                                              (case DiskProperties_DiskSizeGB props of
                                                 None \<Rightarrow> diskSizeGb
                                               | Some n \<Rightarrow> scast n))
                                       else diskSizeGb)
                                in
                                case Disk_DiskProperties disk of
                                  None \<Rightarrow> Inl (Panic NilPointerDereference)
                                | Some props \<Rightarrow>
                                    (let diskEncryptionSetId =
                                           (case DiskProperties_Encryption props of
                                              None \<Rightarrow> diskEncryptionSetId
                                            | Some enc \<Rightarrow>
                                               (case Encryption_DiskEncryptionSetID enc of
                                                  None \<Rightarrow> diskEncryptionSetId
                                                | Some s \<Rightarrow> s))
                                     in Inr (diskEncryptionSetId, storageAccountType,
                                             diskSizeGb)))
                             else Inr (diskEncryptionSetId, storageAccountType, diskSizeGb))))))
            (\<lambda>(diskEncryptionSetId, storageAccountType, diskSizeGb).
               let writeAcceleratorEnabled =
                     (case OSDisk_WriteAcceleratorEnabled input of None \<Rightarrow> False | Some b \<Rightarrow> b)
               in Inr [VMap [(''caching'', VString (OSDisk_Caching input)),
                             (''disk_size_gb'', VInt diskSizeGb),
                             (''diff_disk_settings'', VList diffDiskSettings),
                             (''disk_encryption_set_id'', VString diskEncryptionSetId),
                             (''name'', VString name),
                             (''storage_account_type'', VString storageAccountType),
                             (''write_accelerator_enabled'', VBool writeAcceleratorEnabled)]])))"

section \<open>Data disks\<close>

text \<open>
  The body of the loop, lines 514 to 563, turns one entry of \<^verbatim>\<open>data_disk\<close> into one
  \<^verbatim>\<open>DataDisk\<close>, or into the failure that ends the whole call. It is given in three parts.
  Writing a field through \<^verbatim>\<open>dataDisk.ManagedDisk\<close> reads that pointer, which the body
  has set before.

  Lines 533 to 551: the lookup of a managed disk whose identifier the entry supplies.
\<close>

definition expandVirtualMachineDataDisks_lookup ::
  "deps \<Rightarrow> (string \<times> val) list \<Rightarrow> string \<Rightarrow> DataDisk \<Rightarrow> failure + DataDisk" where
  "expandVirtualMachineDataDisks_lookup deps disk name dataDisk =
     (let (managedDiskId, ok) = string_ok (index_map disk ''managed_disk_id'') in
      if ok \<and> managedDiskId \<noteq> '''' then
        (case ManagedDiskID deps managedDiskId of
           Inl err \<Rightarrow>
             Inl (Failed (Errorf ''failed to parse Managed Disk ID for Data Disk %q'' [name]))
         | Inr dataDiskId \<Rightarrow>
            (case DisksClient_Get deps (ManagedDiskId_ResourceGroup dataDiskId)
                    (ManagedDiskId_Name dataDiskId) of
               (existingDisk, err) \<Rightarrow>
                 if err \<noteq> None then
                   Inl (Failed (Errorf
                     ''failed to retrieve Managed Disk information for Data Disk %q (resource group %q)''
                     [ManagedDiskId_Name dataDiskId, ManagedDiskId_ResourceGroup dataDiskId]))
                 else
                   (case DataDisk_ManagedDisk dataDisk of
                      None \<Rightarrow> Inl (Panic NilPointerDereference)
                    | Some managedDisk \<Rightarrow>
                       (let dataDisk =
                              dataDisk\<lparr>DataDisk_ManagedDisk :=
                                Some (managedDisk\<lparr>ManagedDisk_ID := Some managedDiskId\<rparr>)\<rparr>
                        in
                        case Disk_DiskProperties existingDisk of
                          None \<Rightarrow> Inl (Panic NilPointerDereference)
                        | Some props \<Rightarrow>
                           (let dataDisk =
                                  dataDisk\<lparr>DataDisk_DiskSizeGB :=
                                    DiskProperties_DiskSizeGB props\<rparr>;
                                (createOption, ok) =
                                  string_ok (index_map disk ''create_option'')
                            in Inr (if ok \<and> createOption = ''''
                                    then dataDisk\<lparr>DataDisk_CreateOption :=
                                           DiskCreateOptionTypesAttach\<rparr>
                                    else dataDisk))))))
      else Inr dataDisk)"

text \<open>Lines 553 to 561: the encryption set and the write accelerator.\<close>

definition expandVirtualMachineDataDisks_rest ::
  "(string \<times> val) list \<Rightarrow> DataDisk \<Rightarrow> failure + DataDisk" where
  "expandVirtualMachineDataDisks_rest disk dataDisk =
     (let (diskEncryptionSet, encryptionSetOk) =
            string_ok (index_map disk ''disk_encryption_set_id'')
      in
      bind_result
        (if encryptionSetOk \<and> diskEncryptionSet \<noteq> '''' then
           (case DataDisk_ManagedDisk dataDisk of
              None \<Rightarrow> Inl (Panic NilPointerDereference)
            | Some managedDisk \<Rightarrow>
                Inr (dataDisk\<lparr>DataDisk_ManagedDisk :=
                       Some (managedDisk\<lparr>ManagedDisk_DiskEncryptionSet :=
                               Some \<lparr>DiskEncryptionSet_ID = Some diskEncryptionSet\<rparr>\<rparr>)\<rparr>))
         else Inr dataDisk) (\<lambda>dataDisk.
      case map_of disk ''write_accelerator_enabled'' of
        None \<Rightarrow> Inr dataDisk
      | Some writeAccelerator \<Rightarrow>
          bind_result (assert_bool writeAccelerator) (\<lambda>b.
          Inr (dataDisk\<lparr>DataDisk_WriteAcceleratorEnabled := Some b\<rparr>))))"

text \<open>Lines 514 to 563: the struct literal, the name and the size, then the two parts above.\<close>

definition expandVirtualMachineDataDisks_body :: "deps \<Rightarrow> val \<Rightarrow> failure + DataDisk" where
  "expandVirtualMachineDataDisks_body deps v =
     bind_result (assert_map v) (\<lambda>disk.
     bind_result (assert_int (index_map disk ''lun'')) (\<lambda>lun.
     bind_result (assert_string (index_map disk ''caching'')) (\<lambda>caching.
     bind_result (assert_string (index_map disk ''storage_account_type'')) (\<lambda>storageAccountType.
     let dataDisk = \<lparr>DataDisk_Lun = Some (ucast lun),
                      DataDisk_Name = None,
                      DataDisk_Caching = caching,
                      DataDisk_WriteAcceleratorEnabled = None,
                      DataDisk_CreateOption = DiskCreateOptionTypesEmpty,
                      DataDisk_DiskSizeGB = None,
                      DataDisk_ManagedDisk =
                        Some \<lparr>ManagedDisk_StorageAccountType = storageAccountType,
                              ManagedDisk_DiskEncryptionSet = None,
                              ManagedDisk_ID = None\<rparr>,
                      DataDisk_DiskIOPSReadWrite = None,
                      DataDisk_DiskMBpsReadWrite = None\<rparr>;
         (name, ok) = string_ok (index_map disk ''name'');
         dataDisk = (if ok then dataDisk\<lparr>DataDisk_Name := Some name\<rparr> else dataDisk);
         (diskSizeGb, ok) = int_ok (index_map disk ''disk_size_gb'');
         dataDisk = (if ok then dataDisk\<lparr>DataDisk_DiskSizeGB := Some (ucast diskSizeGb)\<rparr>
                     else dataDisk)
     in
     bind_result (expandVirtualMachineDataDisks_lookup deps disk name dataDisk) (\<lambda>dataDisk.
     expandVirtualMachineDataDisks_rest disk dataDisk)))))"

text \<open>Lines 513 to 564, the loop: it appends to \<^verbatim>\<open>result\<close> and stops at the first failure.\<close>

fun expandVirtualMachineDataDisks_loop ::
  "deps \<Rightarrow> val list \<Rightarrow> DataDisk list \<Rightarrow> failure + DataDisk list" where
  "expandVirtualMachineDataDisks_loop deps [] result = Inr result"
| "expandVirtualMachineDataDisks_loop deps (v # vs) result =
     (case expandVirtualMachineDataDisks_body deps v of
        Inl f \<Rightarrow> Inl f
      | Inr dataDisk \<Rightarrow> expandVirtualMachineDataDisks_loop deps vs (result @ [dataDisk]))"

text \<open>
  Lines 498 to 567. The disks client that the source takes out of \<^verbatim>\<open>meta\<close> is the
  \<open>DisksClient_Get\<close> of \<open>deps\<close>.
\<close>

definition expandVirtualMachineDataDisks ::
  "deps \<Rightarrow> ResourceData \<Rightarrow> failure + DataDisk list" where
  "expandVirtualMachineDataDisks deps d =
     (let result = [];
          (dataDisksRaw, ok) = GetOk d ''data_disk''
      in if \<not> ok then Inr result
         else bind_result (assert_list dataDisksRaw) (\<lambda>dataDisks.
              expandVirtualMachineDataDisks_loop deps dataDisks result))"

text \<open>Lines 569 to 635. \<^verbatim>\<open>int(*v.Lun)\<close> and \<^verbatim>\<open>int(*v.DiskSizeGB)\<close> extend the sign.\<close>

definition flattenVirtualMachineDataDisks :: "DataDisk list option \<Rightarrow> val list" where
  "flattenVirtualMachineDataDisks input =
     (case input of
        None \<Rightarrow> []
      | Some disks \<Rightarrow>
          map (\<lambda>v.
            let name = (case DataDisk_Name v of None \<Rightarrow> '''' | Some n \<Rightarrow> n);
                lun = (case DataDisk_Lun v of None \<Rightarrow> (0 :: int64) | Some l \<Rightarrow> scast l);
                storageAccountType =
                  (case DataDisk_ManagedDisk v of
                     None \<Rightarrow> ''''
                   | Some md \<Rightarrow> ManagedDisk_StorageAccountType md);
                managedDiskID =
                  (case DataDisk_ManagedDisk v of
                     None \<Rightarrow> ''''
                   | Some md \<Rightarrow> (case ManagedDisk_ID md of None \<Rightarrow> '''' | Some s \<Rightarrow> s));
                diskEncryptionSetID =
                  (case DataDisk_ManagedDisk v of
                     None \<Rightarrow> ''''
                   | Some md \<Rightarrow>
                      (case ManagedDisk_DiskEncryptionSet md of
                         None \<Rightarrow> ''''
                       | Some des \<Rightarrow>
                          (case DiskEncryptionSet_ID des of None \<Rightarrow> '''' | Some s \<Rightarrow> s)));
                diskSizeGB =
                  (case DataDisk_DiskSizeGB v of None \<Rightarrow> (0 :: int64) | Some n \<Rightarrow> scast n);
                writeAccelerator =
                  (case DataDisk_WriteAcceleratorEnabled v of None \<Rightarrow> False | Some b \<Rightarrow> b);
                diskIOPS =
                  (case DataDisk_DiskIOPSReadWrite v of None \<Rightarrow> (0 :: int64) | Some n \<Rightarrow> n);
                diskMBPS =
                  (case DataDisk_DiskMBpsReadWrite v of None \<Rightarrow> (0 :: int64) | Some n \<Rightarrow> n)
            in VMap [(''name'', VString name),
                     (''lun'', VInt lun),
                     (''caching'', VString (DataDisk_Caching v)),
                     (''storage_account_type'', VString storageAccountType),
                     (''managed_disk_id'', VString managedDiskID),
                     (''disk_encryption_set_id'', VString diskEncryptionSetID),
                     (''disk_size_gb'', VInt diskSizeGB),
                     (''create_option'', VDiskCreateOptionTypes (DataDisk_CreateOption v)),
                     (''write_accelerator_enabled'', VBool writeAccelerator),
                     (''disk_iops_read_write'', VInt diskIOPS),
                     (''disk_mbps_read_write'', VInt diskMBPS)]) disks)"

section \<open>Properties\<close>

subsection \<open>Auxiliary facts\<close>

lemma index_map_Some: "map_of m k = Some v \<Longrightarrow> index_map m k = v"
  by (simp add: index_map_def)

lemma identityIds_loop_strings:
  "identityIds_loop (map VString ids) acc =
     Inr (fold (\<lambda>k. AList.update k
        \<lparr>UserAssignedIdentitiesValue_PrincipalID = None,
         UserAssignedIdentitiesValue_ClientID = None\<rparr>) ids acc)"
  by (induction ids arbitrary: acc) simp_all

lemma keys_fold_update:
  "fst ` set (fold (\<lambda>k. AList.update k u) ids acc) = set ids \<union> fst ` set acc"
  by (induction ids arbitrary: acc) (auto simp: dom_update)

lemma distinct_fold_update:
  "distinct (map fst acc) \<Longrightarrow> distinct (map fst (fold (\<lambda>k. AList.update k u) ids acc))"
  by (induction ids arbitrary: acc) (simp_all add: distinct_update)

lemma fold_update_nonempty:
  "ids \<noteq> [] \<Longrightarrow> fold (\<lambda>k. AList.update k u) ids acc \<noteq> []"
  using keys_fold_update [of u ids acc] by (cases ids) auto

lemma expandVirtualMachineOSDisk_shaped:
  assumes "map_of raw ''caching'' = Some (VString caching)"
      and "map_of raw ''storage_account_type'' = Some (VString sat)"
      and "map_of raw ''write_accelerator_enabled'' = Some (VBool wa)"
      and "map_of raw ''disk_size_gb'' = Some (VInt size_gb)"
      and "map_of raw ''diff_disk_settings'' = Some (VList dds)"
      and "dds = [] \<or> (\<exists>dm tl. dds = VMap dm # tl \<and> map_of dm ''option'' = Some (VString opt))"
      and "map_of raw ''disk_encryption_set_id'' = Some (VString des)"
      and "map_of raw ''name'' = Some (VString name)"
  shows "expandVirtualMachineOSDisk (VMap raw # rest) osType =
           Inr \<lparr>OSDisk_OsType = osType,
                OSDisk_Name = (if name = '''' then None else Some name),
                OSDisk_Caching = caching,
                OSDisk_WriteAcceleratorEnabled = Some wa,
                OSDisk_DiffDiskSettings =
                  (if dds = [] then None else Some \<lparr>DiffDiskSettings_Option = opt\<rparr>),
                OSDisk_CreateOption = ''FromImage'',
                OSDisk_DiskSizeGB = (if 0 < sint size_gb then Some (ucast size_gb) else None),
                OSDisk_ManagedDisk =
                  Some \<lparr>ManagedDisk_StorageAccountType = sat,
                        ManagedDisk_DiskEncryptionSet =
                          (if des = '''' then None
                           else Some \<lparr>DiskEncryptionSet_ID = Some des\<rparr>),
                        ManagedDisk_ID = None\<rparr>\<rparr>"
  using assms
  by (auto simp add: expandVirtualMachineOSDisk_def index0_def index_map_Some Let_def
      DiskCreateOptionTypesFromImage_def)

lemma flattenVirtualMachineOSDisk_no_lookup:
  assumes "OSDisk_ManagedDisk input = None
           \<or> (\<exists>md. OSDisk_ManagedDisk input = Some md \<and> ManagedDisk_ID md = None)"
  shows "flattenVirtualMachineOSDisk deps (Some input) =
     Inr [VMap [(''caching'', VString (OSDisk_Caching input)),
                (''disk_size_gb'',
                   VInt (case OSDisk_DiskSizeGB input of
                           None \<Rightarrow> 0 | Some n \<Rightarrow> if n \<noteq> 0 then scast n else 0)),
                (''diff_disk_settings'',
                   VList (case OSDisk_DiffDiskSettings input of
                            None \<Rightarrow> []
                          | Some s \<Rightarrow> [VMap [(''option'', VString (DiffDiskSettings_Option s))]])),
                (''disk_encryption_set_id'', VString ''''),
                (''name'', VString (case OSDisk_Name input of None \<Rightarrow> '''' | Some n \<Rightarrow> n)),
                (''storage_account_type'',
                   VString (case OSDisk_ManagedDisk input of
                              None \<Rightarrow> '''' | Some md \<Rightarrow> ManagedDisk_StorageAccountType md)),
                (''write_accelerator_enabled'',
                   VBool (case OSDisk_WriteAcceleratorEnabled input of
                            None \<Rightarrow> False | Some b \<Rightarrow> b))]]"
  using assms
  by (auto simp add: flattenVirtualMachineOSDisk_def Let_def)

lemma flattenVirtualMachineOSDisk_parse_error:
  assumes "OSDisk_ManagedDisk input = Some md" and "ManagedDisk_ID md = Some mid"
      and "ManagedDiskID deps mid = Inl e"
  shows "flattenVirtualMachineOSDisk deps (Some input) = Inl (Failed e)"
  using assms by (simp add: flattenVirtualMachineOSDisk_def Let_def)

lemma flattenVirtualMachineOSDisk_not_found:
  assumes "OSDisk_ManagedDisk input = Some md" and "ManagedDisk_ID md = Some mid"
      and "ManagedDiskID deps mid = Inr pid"
      and "DisksClient_Get deps (ManagedDiskId_ResourceGroup pid) (ManagedDiskId_Name pid)
             = (disk, err)"
      and "ResponseWasNotFound deps (Disk_Response disk)"
  shows "flattenVirtualMachineOSDisk deps (Some input) =
     Inr [VMap [(''caching'', VString (OSDisk_Caching input)),
                (''disk_size_gb'',
                   VInt (case OSDisk_DiskSizeGB input of
                           None \<Rightarrow> 0 | Some n \<Rightarrow> if n \<noteq> 0 then scast n else 0)),
                (''diff_disk_settings'',
                   VList (case OSDisk_DiffDiskSettings input of
                            None \<Rightarrow> []
                          | Some s \<Rightarrow> [VMap [(''option'', VString (DiffDiskSettings_Option s))]])),
                (''disk_encryption_set_id'', VString ''''),
                (''name'', VString (case OSDisk_Name input of None \<Rightarrow> '''' | Some n \<Rightarrow> n)),
                (''storage_account_type'', VString (ManagedDisk_StorageAccountType md)),
                (''write_accelerator_enabled'',
                   VBool (case OSDisk_WriteAcceleratorEnabled input of
                            None \<Rightarrow> False | Some b \<Rightarrow> b))]]"
  using assms by (cases err) (simp_all add: flattenVirtualMachineOSDisk_def Let_def)

lemma flattenVirtualMachineOSDisk_lookup_error:
  assumes "OSDisk_ManagedDisk input = Some md" and "ManagedDisk_ID md = Some mid"
      and "ManagedDiskID deps mid = Inr pid"
      and "DisksClient_Get deps (ManagedDiskId_ResourceGroup pid) (ManagedDiskId_Name pid)
             = (disk, Some e)"
      and "\<not> ResponseWasNotFound deps (Disk_Response disk)"
  shows "flattenVirtualMachineOSDisk deps (Some input) = Inl (Failed e)"
  using assms by (simp add: flattenVirtualMachineOSDisk_def Let_def)

lemma flattenVirtualMachineOSDisk_found_no_properties:
  assumes "OSDisk_ManagedDisk input = Some md" and "ManagedDisk_ID md = Some mid"
      and "ManagedDiskID deps mid = Inr pid"
      and "DisksClient_Get deps (ManagedDiskId_ResourceGroup pid) (ManagedDiskId_Name pid)
             = (disk, None)"
      and "\<not> ResponseWasNotFound deps (Disk_Response disk)"
      and "Disk_DiskProperties disk = None"
  shows "flattenVirtualMachineOSDisk deps (Some input) = Inl (Panic NilPointerDereference)"
  using assms by (simp add: flattenVirtualMachineOSDisk_def Let_def)

lemma flattenVirtualMachineOSDisk_found:
  assumes "OSDisk_ManagedDisk input = Some md" and "ManagedDisk_ID md = Some mid"
      and "ManagedDiskID deps mid = Inr pid"
      and "DisksClient_Get deps (ManagedDiskId_ResourceGroup pid) (ManagedDiskId_Name pid)
             = (disk, None)"
      and "\<not> ResponseWasNotFound deps (Disk_Response disk)"
      and "Disk_DiskProperties disk = Some props"
  shows "flattenVirtualMachineOSDisk deps (Some input) =
     Inr [VMap [(''caching'', VString (OSDisk_Caching input)),
                (''disk_size_gb'',
                   VInt (let diskSizeGb =
                               (case OSDisk_DiskSizeGB input of
                                  None \<Rightarrow> 0 | Some n \<Rightarrow> if n \<noteq> 0 then scast n else 0)
                         in if diskSizeGb = 0
                            then (case DiskProperties_DiskSizeGB props of
                                    None \<Rightarrow> diskSizeGb | Some n \<Rightarrow> scast n)
                            else diskSizeGb)),
                (''diff_disk_settings'',
                   VList (case OSDisk_DiffDiskSettings input of
                            None \<Rightarrow> []
                          | Some s \<Rightarrow> [VMap [(''option'', VString (DiffDiskSettings_Option s))]])),
                (''disk_encryption_set_id'',
                   VString (case DiskProperties_Encryption props of
                              None \<Rightarrow> ''''
                            | Some enc \<Rightarrow>
                               (case Encryption_DiskEncryptionSetID enc of
                                  None \<Rightarrow> '''' | Some s \<Rightarrow> s))),
                (''name'', VString (case OSDisk_Name input of None \<Rightarrow> '''' | Some n \<Rightarrow> n)),
                (''storage_account_type'',
                   VString (case Disk_Sku disk of
                              None \<Rightarrow> ManagedDisk_StorageAccountType md
                            | Some sku \<Rightarrow>
                                if ManagedDisk_StorageAccountType md = '''' then DiskSku_Name sku
                                else ManagedDisk_StorageAccountType md)),
                (''write_accelerator_enabled'',
                   VBool (case OSDisk_WriteAcceleratorEnabled input of
                            None \<Rightarrow> False | Some b \<Rightarrow> b))]]"
  using assms by (simp add: flattenVirtualMachineOSDisk_def Let_def)

lemma bind_result_Inr_iff:
  "bind_result r k = Inr y \<longleftrightarrow> (\<exists>x. r = Inr x \<and> k x = Inr y)"
  by (cases r) simp_all

lemma expandVirtualMachineDataDisks_lookup_Inr:
  assumes "expandVirtualMachineDataDisks_lookup deps disk name d0 = Inr d1"
      and "map_of disk ''managed_disk_id'' = Some (VString mid)"
      and "mid \<noteq> ''''"
  shows "\<exists>pid existing props md.
           ManagedDiskID deps mid = Inr pid
         \<and> DisksClient_Get deps (ManagedDiskId_ResourceGroup pid) (ManagedDiskId_Name pid)
             = (existing, None)
         \<and> Disk_DiskProperties existing = Some props
         \<and> DataDisk_DiskSizeGB d1 = DiskProperties_DiskSizeGB props
         \<and> DataDisk_ManagedDisk d1 = Some md \<and> ManagedDisk_ID md = Some mid
         \<and> DataDisk_CreateOption d1 =
             (if index_map disk ''create_option'' = VString ''''
              then DiskCreateOptionTypesAttach else DataDisk_CreateOption d0)
         \<and> DataDisk_Name d1 = DataDisk_Name d0"
proof -
  have co: "(case string_ok (index_map disk ''create_option'') of
              (createOption, ok) \<Rightarrow> ok \<and> createOption = '''')
            \<longleftrightarrow> index_map disk ''create_option'' = VString ''''"
    by (cases "index_map disk ''create_option''") auto
  show ?thesis
    using assms co
    by (auto simp add: expandVirtualMachineDataDisks_lookup_def index_map_Some Let_def
        split: sum.splits prod.splits option.splits if_splits)
qed

lemma expandVirtualMachineDataDisks_rest_Inr:
  assumes "expandVirtualMachineDataDisks_rest disk d1 = Inr dd"
  shows "DataDisk_DiskSizeGB dd = DataDisk_DiskSizeGB d1
       \<and> DataDisk_CreateOption dd = DataDisk_CreateOption d1
       \<and> DataDisk_Name dd = DataDisk_Name d1
       \<and> map_option ManagedDisk_ID (DataDisk_ManagedDisk dd)
           = map_option ManagedDisk_ID (DataDisk_ManagedDisk d1)"
  using assms
  by (auto simp add: expandVirtualMachineDataDisks_rest_def bind_result_Inr_iff Let_def
      split: prod.splits option.splits if_splits)

lemma expandVirtualMachineDataDisks_body_Inr:
  assumes "expandVirtualMachineDataDisks_body deps (VMap m) = Inr dd"
      and "map_of m ''managed_disk_id'' = Some (VString mid)"
      and "mid \<noteq> ''''"
  shows "\<exists>pid existing props md.
           ManagedDiskID deps mid = Inr pid
         \<and> DisksClient_Get deps (ManagedDiskId_ResourceGroup pid) (ManagedDiskId_Name pid)
             = (existing, None)
         \<and> Disk_DiskProperties existing = Some props
         \<and> DataDisk_DiskSizeGB dd = DiskProperties_DiskSizeGB props
         \<and> DataDisk_ManagedDisk dd = Some md \<and> ManagedDisk_ID md = Some mid
         \<and> DataDisk_CreateOption dd =
             (if index_map m ''create_option'' = VString ''''
              then DiskCreateOptionTypesAttach else DiskCreateOptionTypesEmpty)
         \<and> DataDisk_Name dd =
             (if snd (string_ok (index_map m ''name''))
              then Some (fst (string_ok (index_map m ''name''))) else None)"
proof -
  from assms(1) obtain d0 d1 name where
    l: "expandVirtualMachineDataDisks_lookup deps m name d0 = Inr d1"
    and r: "expandVirtualMachineDataDisks_rest m d1 = Inr dd"
    and c0: "DataDisk_CreateOption d0 = DiskCreateOptionTypesEmpty"
    and n0: "DataDisk_Name d0 =
             (if snd (string_ok (index_map m ''name''))
              then Some (fst (string_ok (index_map m ''name''))) else None)"
    by (auto simp add: expandVirtualMachineDataDisks_body_def bind_result_Inr_iff Let_def
        split_beta)
  from expandVirtualMachineDataDisks_lookup_Inr [OF l assms(2,3)]
  obtain pid existing props md where
    p: "ManagedDiskID deps mid = Inr pid"
    "DisksClient_Get deps (ManagedDiskId_ResourceGroup pid) (ManagedDiskId_Name pid)
             = (existing, None)"
    "Disk_DiskProperties existing = Some props"
    "DataDisk_DiskSizeGB d1 = DiskProperties_DiskSizeGB props"
    "DataDisk_ManagedDisk d1 = Some md" "ManagedDisk_ID md = Some mid"
    "DataDisk_CreateOption d1 =
             (if index_map m ''create_option'' = VString ''''
              then DiskCreateOptionTypesAttach else DataDisk_CreateOption d0)"
    "DataDisk_Name d1 = DataDisk_Name d0"
    by blast
  note q = expandVirtualMachineDataDisks_rest_Inr [OF r]
  from q p(5,6) obtain md' where
    "DataDisk_ManagedDisk dd = Some md'" "ManagedDisk_ID md' = Some mid"
    by (cases "DataDisk_ManagedDisk dd") auto
  with p q c0 n0 show ?thesis by simp
qed

lemma expandVirtualMachineDataDisks_body_lookup_error:
  assumes "map_of m ''lun'' = Some (VInt lun)"
      and "map_of m ''caching'' = Some (VString caching)"
      and "map_of m ''storage_account_type'' = Some (VString sat)"
      and "map_of m ''managed_disk_id'' = Some (VString mid)"
      and "mid \<noteq> ''''"
      and "ManagedDiskID deps mid = Inr pid"
      and "DisksClient_Get deps (ManagedDiskId_ResourceGroup pid) (ManagedDiskId_Name pid)
             = (disk, Some e)"
  shows "expandVirtualMachineDataDisks_body deps (VMap m) =
           Inl (Failed (Errorf
             ''failed to retrieve Managed Disk information for Data Disk %q (resource group %q)''
             [ManagedDiskId_Name pid, ManagedDiskId_ResourceGroup pid]))"
  using assms
  by (simp add: expandVirtualMachineDataDisks_body_def expandVirtualMachineDataDisks_lookup_def
      index_map_Some Let_def split_beta)



lemma expandVirtualMachineDataDisks_loop_Inr:
  "expandVirtualMachineDataDisks_loop deps vs acc = Inr result \<Longrightarrow>
     length result = length acc + length vs
   \<and> take (length acc) result = acc
   \<and> (\<forall>i<length vs. expandVirtualMachineDataDisks_body deps (vs ! i)
                       = Inr (result ! (length acc + i)))"
proof (induction vs arbitrary: acc)
  case Nil
  then show ?case by simp
next
  case (Cons v vs)
  from Cons.prems obtain dd where
    b: "expandVirtualMachineDataDisks_body deps v = Inr dd"
    and l: "expandVirtualMachineDataDisks_loop deps vs (acc @ [dd]) = Inr result"
    by (auto split: sum.splits)
  from Cons.IH [OF l] have
    len: "length result = length acc + 1 + length vs"
    and tk: "take (length acc + 1) result = acc @ [dd]"
    and ih: "\<forall>i<length vs. expandVirtualMachineDataDisks_body deps (vs ! i)
                       = Inr (result ! (length acc + 1 + i))"
    by simp_all
  have t: "take (length acc) result = acc"
  proof -
    have "take (length acc) (take (length acc + 1) result) = take (length acc) (acc @ [dd])"
      using tk by simp
    then show ?thesis by (simp add: min_def)
  qed
  have h: "result ! length acc = dd"
  proof -
    have "take (length acc + 1) result ! length acc = (acc @ [dd]) ! length acc"
      using tk by simp
    then show ?thesis by simp
  qed
  have "\<forall>i<length (v # vs). expandVirtualMachineDataDisks_body deps ((v # vs) ! i)
                       = Inr (result ! (length acc + i))"
  proof (intro allI impI)
    fix i assume "i < length (v # vs)"
    then show "expandVirtualMachineDataDisks_body deps ((v # vs) ! i)
                 = Inr (result ! (length acc + i))"
      using b h ih by (cases i) simp_all
  qed
  with len t show ?case by simp
qed


lemma expandVirtualMachineDataDisks_loop_fails:
  "\<forall>v\<in>set pre. \<exists>dd. expandVirtualMachineDataDisks_body deps v = Inr dd \<Longrightarrow>
   expandVirtualMachineDataDisks_body deps v = Inl f \<Longrightarrow>
   expandVirtualMachineDataDisks_loop deps (pre @ v # post) acc = Inl f"
  by (induction pre arbitrary: acc) auto

lemma expandVirtualMachineDataDisks_list:
  "GetOk d ''data_disk'' = (VList disks, True) \<Longrightarrow>
   expandVirtualMachineDataDisks deps d = expandVirtualMachineDataDisks_loop deps disks []"
  by (simp add: expandVirtualMachineDataDisks_def)

lemma expandVirtualMachineDataDisks_entry:
  assumes "GetOk d ''data_disk'' = (VList disks, True)"
      and "expandVirtualMachineDataDisks deps d = Inr result"
      and "i < length disks"
  shows "i < length result
       \<and> expandVirtualMachineDataDisks_body deps (disks ! i) = Inr (result ! i)"
  using expandVirtualMachineDataDisks_loop_Inr [of deps disks "[]" result] assms
  by (simp add: expandVirtualMachineDataDisks_list)


lemma expandVirtualMachineNetworkInterfaceIDs_loop_strings:
  "\<exists>refs. expandVirtualMachineNetworkInterfaceIDs_loop i (map VString ids) out = Inr refs
         \<and> length refs = length out + length ids"
  by (induction ids arbitrary: i out) (simp_all, fastforce)

lemma flattenVirtualMachineOSDisk_no_size:
  assumes a: "OSDisk_DiskSizeGB input = None
      \<and> (\<forall>md mid pid disk err props.
            OSDisk_ManagedDisk input = Some md \<longrightarrow> ManagedDisk_ID md = Some mid \<longrightarrow>
            ManagedDiskID deps mid = Inr pid \<longrightarrow>
            DisksClient_Get deps (ManagedDiskId_ResourceGroup pid) (ManagedDiskId_Name pid)
              = (disk, err) \<longrightarrow>
            \<not> ResponseWasNotFound deps (Disk_Response disk) \<longrightarrow>
            Disk_DiskProperties disk = Some props \<longrightarrow>
            DiskProperties_DiskSizeGB props = None)
      \<and> flattenVirtualMachineOSDisk deps (Some input) = Inr result"
  shows "\<exists>m. result = [VMap m] \<and> map_of m ''disk_size_gb'' = Some (VInt 0)"
  proof (cases "OSDisk_ManagedDisk input")
    case None
    then show ?thesis
      using a flattenVirtualMachineOSDisk_no_lookup [of input deps] by auto
  next
    case (Some md)
    show ?thesis
    proof (cases "ManagedDisk_ID md")
      case None
      then show ?thesis
        using a Some flattenVirtualMachineOSDisk_no_lookup [of input deps] by auto
    next
      case mid: (Some mid)
      show ?thesis
      proof (cases "ManagedDiskID deps mid")
        case (Inl e)
        then show ?thesis
          using a flattenVirtualMachineOSDisk_parse_error [OF Some mid Inl] by simp
      next
        case (Inr pid)
        obtain disk err where g:
          "DisksClient_Get deps (ManagedDiskId_ResourceGroup pid) (ManagedDiskId_Name pid)
             = (disk, err)"
          by (cases "DisksClient_Get deps (ManagedDiskId_ResourceGroup pid)
                (ManagedDiskId_Name pid)") auto
        show ?thesis
        proof (cases "ResponseWasNotFound deps (Disk_Response disk)")
          case True
          then show ?thesis
            using a flattenVirtualMachineOSDisk_not_found [OF Some mid Inr g True] by auto
        next
          case False
          show ?thesis
          proof (cases err)
            case e: (Some e)
            then show ?thesis
              using a flattenVirtualMachineOSDisk_lookup_error [OF Some mid Inr _ False] g
              by simp
          next
            case None
            note g' = g [unfolded None]
            show ?thesis
            proof (cases "Disk_DiskProperties disk")
              case np: None
              then show ?thesis
                using a flattenVirtualMachineOSDisk_found_no_properties
                  [OF Some mid Inr g' False np] by simp
            next
              case p: (Some props)
              have "DiskProperties_DiskSizeGB props = None"
                using a Some mid Inr g False p by blast
              then show ?thesis
                using a flattenVirtualMachineOSDisk_found [OF Some mid Inr g' False p]
                by auto
            qed
          qed
        qed
      qed
    qed
  qed

lemma flattenVirtualMachineOSDisk_returns:
  assumes "(OSDisk_ManagedDisk input = None
           \<or> (\<exists>md. OSDisk_ManagedDisk input = Some md \<and> ManagedDisk_ID md = None)
           \<or> (\<exists>md mid pid disk err.
                 OSDisk_ManagedDisk input = Some md \<and> ManagedDisk_ID md = Some mid
               \<and> ManagedDiskID deps mid = Inr pid
               \<and> DisksClient_Get deps (ManagedDiskId_ResourceGroup pid)
                     (ManagedDiskId_Name pid) = (disk, err)
               \<and> (ResponseWasNotFound deps (Disk_Response disk)
                    \<or> err = None \<and> Disk_DiskProperties disk \<noteq> None)))"
  shows "\<exists>result. flattenVirtualMachineOSDisk deps (Some input) = Inr result"
proof -
  from assms consider
      (none) "OSDisk_ManagedDisk input = None
              \<or> (\<exists>md. OSDisk_ManagedDisk input = Some md \<and> ManagedDisk_ID md = None)"
    | (lookup) md mid pid disk err where
        "OSDisk_ManagedDisk input = Some md" "ManagedDisk_ID md = Some mid"
        "ManagedDiskID deps mid = Inr pid"
        "DisksClient_Get deps (ManagedDiskId_ResourceGroup pid) (ManagedDiskId_Name pid)
           = (disk, err)"
        "ResponseWasNotFound deps (Disk_Response disk)
           \<or> err = None \<and> Disk_DiskProperties disk \<noteq> None"
    by blast
  then show ?thesis
  proof cases
    case none
    then show ?thesis
      using flattenVirtualMachineOSDisk_no_lookup [of input deps] by simp
  next
    case lookup
    show ?thesis
    proof (cases "ResponseWasNotFound deps (Disk_Response disk)")
      case True
      then show ?thesis
        using flattenVirtualMachineOSDisk_not_found [OF lookup(1-4)] by simp
    next
      case False
      with lookup(5) obtain props where
        e: "err = None" and p: "Disk_DiskProperties disk = Some props" by auto
      show ?thesis
        using flattenVirtualMachineOSDisk_found [OF lookup(1-3) lookup(4) [unfolded e] False p]
        by simp
    qed
  qed
qed

subsection \<open>The claims\<close>

text \<open>
  C5. For a one-element capability list whose mapping carries the boolean \<open>b\<close> under
  \<open>ultra_ssd_enabled\<close>, the expander returns an object, and flattening that object gives
  a one-element list whose mapping has \<open>ultra_ssd_enabled\<close> equal to \<open>b\<close>.
\<close>

theorem capabilities_expand_flatten:
  assumes "map_of raw ''ultra_ssd_enabled'' = Some (VBool b)"
  shows "\<exists>c. expandVirtualMachineAdditionalCapabilities [VMap raw] = Inr c
           \<and> flattenVirtualMachineAdditionalCapabilities (Some c)
               = [VMap [(''ultra_ssd_enabled'', VBool b)]]"
  using assms
  by (simp add: expandVirtualMachineAdditionalCapabilities_def
      flattenVirtualMachineAdditionalCapabilities_def index0_def index_map_def)

theorem capabilities_expand_flatten_witness:
  "map_of [(''ultra_ssd_enabled'', VBool True)] ''ultra_ssd_enabled'' = Some (VBool True)
   \<and> (\<exists>c. expandVirtualMachineAdditionalCapabilities
            [VMap [(''ultra_ssd_enabled'', VBool True)]] = Inr c
         \<and> flattenVirtualMachineAdditionalCapabilities (Some c)
             = [VMap [(''ultra_ssd_enabled'', VBool True)]])"
proof -
  have h: "map_of [(''ultra_ssd_enabled'', VBool True)] ''ultra_ssd_enabled'' = Some (VBool True)"
    by simp
  show ?thesis
    using h capabilities_expand_flatten [OF h] by simp
qed

text \<open>
  C1. An identity configuration whose mapping declares the kind \<open>t\<close> and the identity
  references \<open>ids\<close>: when \<open>t\<close> is neither "UserAssigned" nor "SystemAssigned, UserAssigned"
  and \<open>ids\<close> is not empty, the expander returns the validation error and no identity; when
  \<open>ids\<close> is empty it returns the identity of kind \<open>t\<close>, whatever \<open>t\<close> is.
\<close>

theorem identity_ids_need_user_assigned:
  assumes "map_of raw ''type'' = Some (VString t)"
      and "map_of raw ''identity_ids'' = Some (VSet (map VString ids))"
  shows "(t \<noteq> ''UserAssigned'' \<and> t \<noteq> ''SystemAssigned, UserAssigned'' \<and> ids \<noteq> [] \<longrightarrow>
            expandVirtualMachineIdentity (VMap raw # rest) =
              Inl (Failed (Errorf
                ''`identity_ids` can only be specified when `type` includes `UserAssigned`'' [])))
       \<and> (ids = [] \<longrightarrow>
            expandVirtualMachineIdentity (VMap raw # rest) =
              Inr \<lparr>Identity_PrincipalID = None, Identity_TenantID = None,
                   Identity_Type = t, Identity_UserAssignedIdentities = None\<rparr>)"
  using assms
  by (simp add: expandVirtualMachineIdentity_def index0_def index_map_Some Let_def
      identityIds_loop_strings fold_update_nonempty ResourceIdentityTypeUserAssigned_def
      ResourceIdentityTypeSystemAssignedUserAssigned_def)

theorem identity_ids_need_user_assigned_witness:
  "map_of [(''type'', VString ''SystemAssigned''), (''identity_ids'', VSet (map VString [''id1'']))]
      ''type'' = Some (VString ''SystemAssigned'')
   \<and> map_of [(''type'', VString ''SystemAssigned''), (''identity_ids'', VSet (map VString [''id1'']))]
      ''identity_ids'' = Some (VSet (map VString [''id1'']))
   \<and> ''SystemAssigned'' \<noteq> ''UserAssigned''
   \<and> ''SystemAssigned'' \<noteq> ''SystemAssigned, UserAssigned''
   \<and> [''id1''] \<noteq> []
   \<and> expandVirtualMachineIdentity
        [VMap [(''type'', VString ''SystemAssigned''),
               (''identity_ids'', VSet (map VString [''id1'']))]] =
       Inl (Failed (Errorf
         ''`identity_ids` can only be specified when `type` includes `UserAssigned`'' []))
   \<and> map_of [(''type'', VString ''SystemAssigned''), (''identity_ids'', VSet (map VString []))]
      ''identity_ids'' = Some (VSet (map VString []))
   \<and> expandVirtualMachineIdentity
        [VMap [(''type'', VString ''SystemAssigned''),
               (''identity_ids'', VSet (map VString []))]] =
       Inr \<lparr>Identity_PrincipalID = None, Identity_TenantID = None,
            Identity_Type = ''SystemAssigned'', Identity_UserAssignedIdentities = None\<rparr>"
  using identity_ids_need_user_assigned
    [of "[(''type'', VString ''SystemAssigned''), (''identity_ids'', VSet (map VString [''id1'']))]"
        "''SystemAssigned''" "[''id1'']" "[]"]
    identity_ids_need_user_assigned
    [of "[(''type'', VString ''SystemAssigned''), (''identity_ids'', VSet (map VString []))]"
        "''SystemAssigned''" "[]" "[]"]
  by simp

text \<open>
  C6. An identity configuration of kind "UserAssigned" whose references \<open>ids\<close> are listed
  in any order \<open>listed\<close>: the expander returns an identity, and flattening it, in whatever
  order the runtime visits the keys of the map, gives \<open>identity_ids\<close> holding exactly the
  identifiers of \<open>ids\<close>, each once, so \<open>N\<close> of them when the \<open>N\<close> references differ.
\<close>

theorem identity_expand_flatten_ids:
  assumes "\<And>ks. mset (range_order ks) = mset ks"
      and "mset listed = mset ids"
      and "map_of raw ''type'' = Some (VString ''UserAssigned'')"
      and "map_of raw ''identity_ids'' = Some (VSet (map VString listed))"
  shows "\<exists>identity out.
           expandVirtualMachineIdentity [VMap raw] = Inr identity
         \<and> flattenVirtualMachineIdentity range_order (Some identity) =
             [VMap [(''type'', VString ''UserAssigned''),
                    (''identity_ids'', VStringList out),
                    (''principal_id'', VString ''''),
                    (''tenant_id'', VString '''')]]
         \<and> set out = set ids \<and> distinct out
         \<and> (distinct ids \<longrightarrow> length out = length ids)"
proof -
  let ?u = "\<lparr>UserAssignedIdentitiesValue_PrincipalID = None,
             UserAssignedIdentitiesValue_ClientID = None\<rparr>"
  let ?m = "fold (\<lambda>k. AList.update k ?u) listed []"
  let ?out = "if listed = [] then [] else range_order (map fst ?m)"
  let ?identity = "\<lparr>Identity_PrincipalID = None, Identity_TenantID = None,
                    Identity_Type = ''UserAssigned'',
                    Identity_UserAssignedIdentities = (if listed = [] then None else Some ?m)\<rparr>"
  have same: "set listed = set ids" "length listed = length ids" "distinct listed = distinct ids"
    using assms(2) by (metis mset_eq_setD, metis mset_eq_length, metis mset_eq_imp_distinct_iff)
  have e: "expandVirtualMachineIdentity [VMap raw] = Inr ?identity"
    using assms(3,4)
    by (simp add: expandVirtualMachineIdentity_def index0_def index_map_Some Let_def
        identityIds_loop_strings fold_update_nonempty ResourceIdentityTypeUserAssigned_def
        ResourceIdentityTypeSystemAssignedUserAssigned_def)
  have f: "flattenVirtualMachineIdentity range_order (Some ?identity) =
             [VMap [(''type'', VString ''UserAssigned''),
                    (''identity_ids'', VStringList ?out),
                    (''principal_id'', VString ''''),
                    (''tenant_id'', VString '''')]]"
    by (simp add: flattenVirtualMachineIdentity_def ResourceIdentityTypeNone_def)
  have keys: "set (map fst ?m) = set listed"
    using keys_fold_update [of ?u listed "[]"] by simp
  have dist: "distinct (map fst ?m)"
    by (rule distinct_fold_update) simp
  have ro_set: "set (range_order (map fst ?m)) = set (map fst ?m)"
    using assms(1) by (metis mset_eq_setD)
  have ro_dist: "distinct (range_order (map fst ?m))"
    using assms(1) dist by (metis mset_eq_imp_distinct_iff)
  have s: "set ?out = set ids"
    using keys ro_set same(1) by auto
  have d: "distinct ?out"
    using ro_dist by simp
  have l: "distinct ids \<longrightarrow> length ?out = length ids"
    using s d by (metis distinct_card)
  from e f s d l show ?thesis by blast
qed

theorem identity_expand_flatten_ids_witness:
  "(\<forall>ks :: string list. mset (rev ks) = mset ks)
   \<and> mset [''b'', ''a''] = mset [''a'', ''b'']
   \<and> (\<exists>identity out.
         expandVirtualMachineIdentity
           [VMap [(''type'', VString ''UserAssigned''),
                  (''identity_ids'', VSet (map VString [''b'', ''a'']))]] = Inr identity
       \<and> flattenVirtualMachineIdentity rev (Some identity) =
           [VMap [(''type'', VString ''UserAssigned''),
                  (''identity_ids'', VStringList out),
                  (''principal_id'', VString ''''),
                  (''tenant_id'', VString '''')]]
       \<and> set out = set [''a'', ''b''] \<and> distinct out
       \<and> (distinct [''a'', ''b''] \<longrightarrow> length out = length [''a'', ''b'']))"
proof -
  have h1: "\<And>ks :: string list. mset (rev ks) = mset ks" by simp
  have h2: "mset [''b'', ''a''] = mset [''a'', ''b'']" by simp
  have h3: "map_of [(''type'', VString ''UserAssigned''),
                  (''identity_ids'', VSet (map VString [''b'', ''a'']))] ''type''
            = Some (VString ''UserAssigned'')" by simp
  have h4: "map_of [(''type'', VString ''UserAssigned''),
                  (''identity_ids'', VSet (map VString [''b'', ''a'']))] ''identity_ids''
            = Some (VSet (map VString [''b'', ''a'']))" by simp
  show ?thesis
    using h1 h2 identity_expand_flatten_ids [of rev, OF h1 h2 h3 h4] by blast
qed

text \<open>
  C7. The expander leaves \<open>DiskSizeGB\<close> unset when \<open>disk_size_gb\<close> is 0
  (\<open>expandVirtualMachineOSDisk_shaped\<close>), and the flattener reports 0 for a nil
  \<open>DiskSizeGB\<close> wherever it returns a mapping (\<open>flattenVirtualMachineOSDisk_no_size\<close>).
  It does not return one for every such object: when the lookup finds the disk and the
  disk carries no properties, so that the lookup supplies no size, line 469 tests
  \<^verbatim>\<open>disk.DiskProperties != nil\<close> but line 474 reads \<^verbatim>\<open>disk.Encryption\<close> through the same
  nil pointer, and the flattener panics instead of reporting 0.
\<close>

theorem flatten_os_disk_found_without_properties_panics:
  "OSDisk_DiskSizeGB
     \<lparr>OSDisk_OsType = ''Linux'', OSDisk_Name = Some ''os'',
      OSDisk_Caching = ''ReadOnly'', OSDisk_WriteAcceleratorEnabled = None,
      OSDisk_DiffDiskSettings = None, OSDisk_CreateOption = ''FromImage'',
      OSDisk_DiskSizeGB = None,
      OSDisk_ManagedDisk = Some \<lparr>ManagedDisk_StorageAccountType = ''Standard_LRS'',
        ManagedDisk_DiskEncryptionSet = None, ManagedDisk_ID = Some ''id''\<rparr>\<rparr> = None
   \<and> flattenVirtualMachineOSDisk
        \<lparr>ManagedDiskID = (\<lambda>s. Inr \<lparr>ManagedDiskId_ResourceGroup = ''rg'',
                                    ManagedDiskId_Name = ''os''\<rparr>),
         DisksClient_Get = (\<lambda>g n. (\<lparr>Disk_Response = Some 200, Disk_Sku = None,
                                      Disk_DiskProperties = None\<rparr>, None)),
         ResponseWasNotFound = (\<lambda>r. r = Some 404)\<rparr>
        (Some \<lparr>OSDisk_OsType = ''Linux'', OSDisk_Name = Some ''os'',
               OSDisk_Caching = ''ReadOnly'', OSDisk_WriteAcceleratorEnabled = None,
               OSDisk_DiffDiskSettings = None, OSDisk_CreateOption = ''FromImage'',
               OSDisk_DiskSizeGB = None,
               OSDisk_ManagedDisk = Some \<lparr>ManagedDisk_StorageAccountType = ''Standard_LRS'',
                 ManagedDisk_DiskEncryptionSet = None, ManagedDisk_ID = Some ''id''\<rparr>\<rparr>)
       = Inl (Panic NilPointerDereference)"
  by (simp add: flattenVirtualMachineOSDisk_def)

text \<open>
  C3. An OS disk API object whose managed disk carries an identifier that parses, and the
  answer \<open>(disk, err)\<close> of the disk lookup: when the response is "not found" the flattener
  returns the mapping built from the fields of the object alone; when the lookup returns
  the error \<open>e\<close> and the response is not "not found" the flattener returns \<open>e\<close> and no
  mapping.
\<close>

theorem flatten_os_disk_not_found_tolerated:
  assumes "OSDisk_ManagedDisk input = Some md"
      and "ManagedDisk_ID md = Some mid"
      and "ManagedDiskID deps mid = Inr pid"
      and "DisksClient_Get deps (ManagedDiskId_ResourceGroup pid) (ManagedDiskId_Name pid)
             = (disk, err)"
  shows "(ResponseWasNotFound deps (Disk_Response disk) \<longrightarrow>
            flattenVirtualMachineOSDisk deps (Some input) =
              Inr [VMap [(''caching'', VString (OSDisk_Caching input)),
                (''disk_size_gb'',
                   VInt (case OSDisk_DiskSizeGB input of
                           None \<Rightarrow> 0 | Some n \<Rightarrow> if n \<noteq> 0 then scast n else 0)),
                (''diff_disk_settings'',
                   VList (case OSDisk_DiffDiskSettings input of
                            None \<Rightarrow> []
                          | Some s \<Rightarrow> [VMap [(''option'', VString (DiffDiskSettings_Option s))]])),
                (''disk_encryption_set_id'', VString ''''),
                (''name'', VString (case OSDisk_Name input of None \<Rightarrow> '''' | Some n \<Rightarrow> n)),
                (''storage_account_type'', VString (ManagedDisk_StorageAccountType md)),
                (''write_accelerator_enabled'',
                   VBool (case OSDisk_WriteAcceleratorEnabled input of
                            None \<Rightarrow> False | Some b \<Rightarrow> b))]])
       \<and> (\<forall>e. err = Some e \<and> \<not> ResponseWasNotFound deps (Disk_Response disk) \<longrightarrow>
            flattenVirtualMachineOSDisk deps (Some input) = Inl (Failed e))"
proof (intro conjI impI allI)
  assume "ResponseWasNotFound deps (Disk_Response disk)"
  then show "flattenVirtualMachineOSDisk deps (Some input) =
              Inr [VMap [(''caching'', VString (OSDisk_Caching input)),
                (''disk_size_gb'',
                   VInt (case OSDisk_DiskSizeGB input of
                           None \<Rightarrow> 0 | Some n \<Rightarrow> if n \<noteq> 0 then scast n else 0)),
                (''diff_disk_settings'',
                   VList (case OSDisk_DiffDiskSettings input of
                            None \<Rightarrow> []
                          | Some s \<Rightarrow> [VMap [(''option'', VString (DiffDiskSettings_Option s))]])),
                (''disk_encryption_set_id'', VString ''''),
                (''name'', VString (case OSDisk_Name input of None \<Rightarrow> '''' | Some n \<Rightarrow> n)),
                (''storage_account_type'', VString (ManagedDisk_StorageAccountType md)),
                (''write_accelerator_enabled'',
                   VBool (case OSDisk_WriteAcceleratorEnabled input of
                            None \<Rightarrow> False | Some b \<Rightarrow> b))]]"
    by (rule flattenVirtualMachineOSDisk_not_found [OF assms])
next
  fix e
  assume "err = Some e \<and> \<not> ResponseWasNotFound deps (Disk_Response disk)"
  then show "flattenVirtualMachineOSDisk deps (Some input) = Inl (Failed e)"
    using flattenVirtualMachineOSDisk_lookup_error [OF assms(1-3), of disk e] assms(4)
    by simp
qed

theorem flatten_os_disk_not_found_tolerated_witness:
  "flattenVirtualMachineOSDisk
     \<lparr>ManagedDiskID = (\<lambda>s. Inr \<lparr>ManagedDiskId_ResourceGroup = ''rg'',
                                 ManagedDiskId_Name = ''os''\<rparr>),
      DisksClient_Get = (\<lambda>g n. (\<lparr>Disk_Response = Some 404, Disk_Sku = None,
                                   Disk_DiskProperties = None\<rparr>,
                                 Some (ErrorString ''not found''))),
      ResponseWasNotFound = (\<lambda>r. r = Some 404)\<rparr>
     (Some \<lparr>OSDisk_OsType = ''Linux'', OSDisk_Name = Some ''os'',
            OSDisk_Caching = ''ReadOnly'', OSDisk_WriteAcceleratorEnabled = Some True,
            OSDisk_DiffDiskSettings = Some \<lparr>DiffDiskSettings_Option = ''Local''\<rparr>,
            OSDisk_CreateOption = ''FromImage'', OSDisk_DiskSizeGB = Some 30,
            OSDisk_ManagedDisk = Some \<lparr>ManagedDisk_StorageAccountType = ''Standard_LRS'',
              ManagedDisk_DiskEncryptionSet = None, ManagedDisk_ID = Some ''id''\<rparr>\<rparr>)
   = Inr [VMap [(''caching'', VString ''ReadOnly''),
                (''disk_size_gb'', VInt 30),
                (''diff_disk_settings'', VList [VMap [(''option'', VString ''Local'')]]),
                (''disk_encryption_set_id'', VString ''''),
                (''name'', VString ''os''),
                (''storage_account_type'', VString ''Standard_LRS''),
                (''write_accelerator_enabled'', VBool True)]]
   \<and> flattenVirtualMachineOSDisk
     \<lparr>ManagedDiskID = (\<lambda>s. Inr \<lparr>ManagedDiskId_ResourceGroup = ''rg'',
                                 ManagedDiskId_Name = ''os''\<rparr>),
      DisksClient_Get = (\<lambda>g n. (\<lparr>Disk_Response = Some 500, Disk_Sku = None,
                                   Disk_DiskProperties = None\<rparr>,
                                 Some (ErrorString ''server error''))),
      ResponseWasNotFound = (\<lambda>r. r = Some 404)\<rparr>
     (Some \<lparr>OSDisk_OsType = ''Linux'', OSDisk_Name = Some ''os'',
            OSDisk_Caching = ''ReadOnly'', OSDisk_WriteAcceleratorEnabled = Some True,
            OSDisk_DiffDiskSettings = Some \<lparr>DiffDiskSettings_Option = ''Local''\<rparr>,
            OSDisk_CreateOption = ''FromImage'', OSDisk_DiskSizeGB = Some 30,
            OSDisk_ManagedDisk = Some \<lparr>ManagedDisk_StorageAccountType = ''Standard_LRS'',
              ManagedDisk_DiskEncryptionSet = None, ManagedDisk_ID = Some ''id''\<rparr>\<rparr>)
   = Inl (Failed (ErrorString ''server error''))"
proof -
  let ?md = "\<lparr>ManagedDisk_StorageAccountType = ''Standard_LRS'',
              ManagedDisk_DiskEncryptionSet = None, ManagedDisk_ID = Some ''id''\<rparr>"
  let ?input = "\<lparr>OSDisk_OsType = ''Linux'', OSDisk_Name = Some ''os'',
            OSDisk_Caching = ''ReadOnly'', OSDisk_WriteAcceleratorEnabled = Some True,
            OSDisk_DiffDiskSettings = Some \<lparr>DiffDiskSettings_Option = ''Local''\<rparr>,
            OSDisk_CreateOption = ''FromImage'', OSDisk_DiskSizeGB = Some 30,
            OSDisk_ManagedDisk = Some ?md\<rparr>"
  let ?pid = "\<lparr>ManagedDiskId_ResourceGroup = ''rg'', ManagedDiskId_Name = ''os''\<rparr>"
  let ?d404 = "\<lparr>Disk_Response = Some 404, Disk_Sku = None, Disk_DiskProperties = None\<rparr>"
  let ?d500 = "\<lparr>Disk_Response = Some 500, Disk_Sku = None, Disk_DiskProperties = None\<rparr>"
  let ?deps404 = "\<lparr>ManagedDiskID = (\<lambda>s. Inr ?pid),
      DisksClient_Get = (\<lambda>g n. (?d404, Some (ErrorString ''not found''))),
      ResponseWasNotFound = (\<lambda>r. r = Some 404)\<rparr>"
  let ?deps500 = "\<lparr>ManagedDiskID = (\<lambda>s. Inr ?pid),
      DisksClient_Get = (\<lambda>g n. (?d500, Some (ErrorString ''server error''))),
      ResponseWasNotFound = (\<lambda>r. r = Some 404)\<rparr>"
  have a: "OSDisk_ManagedDisk ?input = Some ?md" by simp
  have b: "ManagedDisk_ID ?md = Some ''id''" by simp
  have c4: "ManagedDiskID ?deps404 ''id'' = Inr ?pid" by simp
  have c5: "ManagedDiskID ?deps500 ''id'' = Inr ?pid" by simp
  have g4: "DisksClient_Get ?deps404 (ManagedDiskId_ResourceGroup ?pid) (ManagedDiskId_Name ?pid)
              = (?d404, Some (ErrorString ''not found''))" by simp
  have g5: "DisksClient_Get ?deps500 (ManagedDiskId_ResourceGroup ?pid) (ManagedDiskId_Name ?pid)
              = (?d500, Some (ErrorString ''server error''))" by simp
  show ?thesis
    using flatten_os_disk_not_found_tolerated [OF a b c4 g4]
          flatten_os_disk_not_found_tolerated [OF a b c5 g5]
    by simp
qed

text \<open>
  C8, as stated. On the mapping with the three keys \<open>caching\<close>, \<open>storage_account_type\<close> and
  \<open>disk_size_gb\<close> alone the expander panics: \<^verbatim>\<open>raw["write_accelerator_enabled"].(bool)\<close> is a
  single-value type assertion on the nil interface of an absent key.
\<close>

theorem os_disk_three_keys_counterexample:
  "expandVirtualMachineOSDisk
     [VMap [(''caching'', VString ''ReadWrite''),
            (''storage_account_type'', VString ''Premium_LRS''),
            (''disk_size_gb'', VInt 0)]] ''Linux''
   = Inl (Panic InterfaceConversion)"
  by (simp add: expandVirtualMachineOSDisk_def index0_def index_map_def)

text \<open>
  C8, amended. With every attribute of the schema present, the four that the example leaves
  out at their zero values, the expander returns an object with \<open>DiskSizeGB\<close> unset and
  create-option "FromImage", for every operating system type; the object carries no
  managed-disk identifier, so flattening it makes no lookup and returns, whatever the
  collaborators are, the mapping of the example.
\<close>

theorem os_disk_example_round_trip:
  "\<exists>obj m.
     expandVirtualMachineOSDisk
       [VMap [(''caching'', VString ''ReadWrite''),
              (''storage_account_type'', VString ''Premium_LRS''),
              (''disk_size_gb'', VInt 0),
              (''name'', VString ''''),
              (''disk_encryption_set_id'', VString ''''),
              (''write_accelerator_enabled'', VBool False),
              (''diff_disk_settings'', VList [])]] osType = Inr obj
   \<and> OSDisk_DiskSizeGB obj = None
   \<and> OSDisk_CreateOption obj = ''FromImage''
   \<and> flattenVirtualMachineOSDisk deps (Some obj) = Inr [VMap m]
   \<and> map_of m = map_of [(''caching'', VString ''ReadWrite''),
                         (''storage_account_type'', VString ''Premium_LRS''),
                         (''disk_size_gb'', VInt 0),
                         (''name'', VString ''''),
                         (''disk_encryption_set_id'', VString ''''),
                         (''write_accelerator_enabled'', VBool False),
                         (''diff_disk_settings'', VList [])]"
proof -
  let ?obj = "\<lparr>OSDisk_OsType = osType, OSDisk_Name = None, OSDisk_Caching = ''ReadWrite'',
      OSDisk_WriteAcceleratorEnabled = Some False, OSDisk_DiffDiskSettings = None,
      OSDisk_CreateOption = ''FromImage'', OSDisk_DiskSizeGB = None,
      OSDisk_ManagedDisk = Some \<lparr>ManagedDisk_StorageAccountType = ''Premium_LRS'',
        ManagedDisk_DiskEncryptionSet = None, ManagedDisk_ID = None\<rparr>\<rparr>"
  let ?m = "[(''caching'', VString ''ReadWrite''),
             (''disk_size_gb'', VInt 0),
             (''diff_disk_settings'', VList []),
             (''disk_encryption_set_id'', VString ''''),
             (''name'', VString ''''),
             (''storage_account_type'', VString ''Premium_LRS''),
             (''write_accelerator_enabled'', VBool False)]"
  have e: "expandVirtualMachineOSDisk
       [VMap [(''caching'', VString ''ReadWrite''),
              (''storage_account_type'', VString ''Premium_LRS''),
              (''disk_size_gb'', VInt 0),
              (''name'', VString ''''),
              (''disk_encryption_set_id'', VString ''''),
              (''write_accelerator_enabled'', VBool False),
              (''diff_disk_settings'', VList [])]] osType = Inr ?obj"
    by (simp add: expandVirtualMachineOSDisk_def index0_def index_map_def
        DiskCreateOptionTypesFromImage_def)
  have f: "flattenVirtualMachineOSDisk deps (Some ?obj) = Inr [VMap ?m]"
    by (simp add: flattenVirtualMachineOSDisk_def)
  have m: "map_of ?m = map_of [(''caching'', VString ''ReadWrite''),
                         (''storage_account_type'', VString ''Premium_LRS''),
                         (''disk_size_gb'', VInt 0),
                         (''name'', VString ''''),
                         (''disk_encryption_set_id'', VString ''''),
                         (''write_accelerator_enabled'', VBool False),
                         (''diff_disk_settings'', VList [])]"
    by (rule ext) simp
  have s: "OSDisk_DiskSizeGB ?obj = None" "OSDisk_CreateOption ?obj = ''FromImage''"
    by simp_all
  from e f m s show ?thesis by blast
qed



text \<open>
  C9. An entry of \<open>data_disk\<close> supplies the managed disk identifier \<open>mid\<close>, which parses,
  and the lookup returns the error \<open>e\<close>, whatever the response is. Then the expander
  returns no list; when the entries before it expand and the entry has its \<open>lun\<close>,
  \<open>caching\<close> and \<open>storage_account_type\<close>, it returns the error built from the format
  "failed to retrieve Managed Disk information for Data Disk %q (resource group %q)" with
  the name and the resource group of the disk.
\<close>

theorem data_disk_lookup_failure:
  assumes "GetOk d ''data_disk'' = (VList (pre @ VMap m # post), True)"
      and "map_of m ''managed_disk_id'' = Some (VString mid)"
      and "mid \<noteq> ''''"
      and "ManagedDiskID deps mid = Inr pid"
      and "DisksClient_Get deps (ManagedDiskId_ResourceGroup pid) (ManagedDiskId_Name pid)
             = (disk, Some e)"
  shows "(\<forall>result. expandVirtualMachineDataDisks deps d \<noteq> Inr result)
       \<and> ((\<forall>v\<in>set pre. \<exists>dd. expandVirtualMachineDataDisks_body deps v = Inr dd)
          \<and> map_of m ''lun'' = Some (VInt lun)
          \<and> map_of m ''caching'' = Some (VString caching)
          \<and> map_of m ''storage_account_type'' = Some (VString sat)
          \<longrightarrow> expandVirtualMachineDataDisks deps d =
                Inl (Failed (Errorf
                  ''failed to retrieve Managed Disk information for Data Disk %q (resource group %q)''
                  [ManagedDiskId_Name pid, ManagedDiskId_ResourceGroup pid])))"
proof (rule conjI; intro impI allI)
  fix result
  show "expandVirtualMachineDataDisks deps d \<noteq> Inr result"
  proof
    assume r: "expandVirtualMachineDataDisks deps d = Inr result"
    have i: "length pre < length (pre @ VMap m # post)" by simp
    from expandVirtualMachineDataDisks_entry [OF assms(1) r i]
    have "expandVirtualMachineDataDisks_body deps (VMap m) = Inr (result ! length pre)"
      by simp
    from expandVirtualMachineDataDisks_body_Inr [OF this assms(2,3)] assms(4,5)
    show False by auto
  qed
next
  assume shape: "(\<forall>v\<in>set pre. \<exists>dd. expandVirtualMachineDataDisks_body deps v = Inr dd)
          \<and> map_of m ''lun'' = Some (VInt lun)
          \<and> map_of m ''caching'' = Some (VString caching)
          \<and> map_of m ''storage_account_type'' = Some (VString sat)"
  then have "expandVirtualMachineDataDisks_body deps (VMap m) =
           Inl (Failed (Errorf
             ''failed to retrieve Managed Disk information for Data Disk %q (resource group %q)''
             [ManagedDiskId_Name pid, ManagedDiskId_ResourceGroup pid]))"
    using expandVirtualMachineDataDisks_body_lookup_error
      [of m lun caching sat mid deps pid disk e] assms(2-5)
    by blast
  with shape show "expandVirtualMachineDataDisks deps d =
                Inl (Failed (Errorf
                  ''failed to retrieve Managed Disk information for Data Disk %q (resource group %q)''
                  [ManagedDiskId_Name pid, ManagedDiskId_ResourceGroup pid]))"
    using expandVirtualMachineDataDisks_loop_fails [of pre deps "VMap m" _ post "[]"]
    by (simp add: expandVirtualMachineDataDisks_list [OF assms(1)])
qed

theorem data_disk_lookup_failure_witness:
  "(\<forall>result. expandVirtualMachineDataDisks
       \<lparr>ManagedDiskID = (\<lambda>s. Inr \<lparr>ManagedDiskId_ResourceGroup = ''rg'', ManagedDiskId_Name = ''data1''\<rparr>),
      DisksClient_Get = (\<lambda>g n. (\<lparr>Disk_Response = Some 404, Disk_Sku = None,
         Disk_DiskProperties = None\<rparr>, Some (ErrorString ''not found''))),
      ResponseWasNotFound = (\<lambda>r. r = Some 404)\<rparr>
       \<lparr>GetOk = (\<lambda>k. (VList [VMap [(''lun'', VInt 0), (''caching'', VString ''ReadWrite''),
           (''name'', VString ''data1''),
           (''storage_account_type'', VString ''Standard_LRS''),
           (''disk_size_gb'', VInt 10),
           (''managed_disk_id'', VString ''/disks/data1''),
           (''create_option'', VString ''''),
           (''write_accelerator_enabled'', VBool False)]], True))\<rparr> \<noteq> Inr result)
   \<and> expandVirtualMachineDataDisks
       \<lparr>ManagedDiskID = (\<lambda>s. Inr \<lparr>ManagedDiskId_ResourceGroup = ''rg'', ManagedDiskId_Name = ''data1''\<rparr>),
      DisksClient_Get = (\<lambda>g n. (\<lparr>Disk_Response = Some 404, Disk_Sku = None,
         Disk_DiskProperties = None\<rparr>, Some (ErrorString ''not found''))),
      ResponseWasNotFound = (\<lambda>r. r = Some 404)\<rparr>
       \<lparr>GetOk = (\<lambda>k. (VList [VMap [(''lun'', VInt 0), (''caching'', VString ''ReadWrite''),
           (''name'', VString ''data1''),
           (''storage_account_type'', VString ''Standard_LRS''),
           (''disk_size_gb'', VInt 10),
           (''managed_disk_id'', VString ''/disks/data1''),
           (''create_option'', VString ''''),
           (''write_accelerator_enabled'', VBool False)]], True))\<rparr>
     = Inl (Failed (Errorf
         ''failed to retrieve Managed Disk information for Data Disk %q (resource group %q)''
         [''data1'', ''rg'']))"
proof -
  let ?m = "[(''lun'', VInt 0), (''caching'', VString ''ReadWrite''),
           (''name'', VString ''data1''),
           (''storage_account_type'', VString ''Standard_LRS''),
           (''disk_size_gb'', VInt 10),
           (''managed_disk_id'', VString ''/disks/data1''),
           (''create_option'', VString ''''),
           (''write_accelerator_enabled'', VBool False)]"
  let ?d = "\<lparr>GetOk = (\<lambda>k. (VList [VMap [(''lun'', VInt 0), (''caching'', VString ''ReadWrite''),
           (''name'', VString ''data1''),
           (''storage_account_type'', VString ''Standard_LRS''),
           (''disk_size_gb'', VInt 10),
           (''managed_disk_id'', VString ''/disks/data1''),
           (''create_option'', VString ''''),
           (''write_accelerator_enabled'', VBool False)]], True))\<rparr>"
  let ?pid = "\<lparr>ManagedDiskId_ResourceGroup = ''rg'', ManagedDiskId_Name = ''data1''\<rparr>"
  let ?disk = "\<lparr>Disk_Response = Some 404, Disk_Sku = None,
         Disk_DiskProperties = None\<rparr>"
  let ?deps = "\<lparr>ManagedDiskID = (\<lambda>s. Inr \<lparr>ManagedDiskId_ResourceGroup = ''rg'', ManagedDiskId_Name = ''data1''\<rparr>),
      DisksClient_Get = (\<lambda>g n. (\<lparr>Disk_Response = Some 404, Disk_Sku = None,
         Disk_DiskProperties = None\<rparr>, Some (ErrorString ''not found''))),
      ResponseWasNotFound = (\<lambda>r. r = Some 404)\<rparr>"
  have g: "GetOk ?d ''data_disk'' = (VList [VMap ?m], True)" by simp
  have i: "(0::nat) < length [VMap ?m]" by simp
  have e: "[VMap ?m] ! 0 = VMap ?m" by simp
  have mid: "map_of ?m ''managed_disk_id'' = Some (VString ''/disks/data1'')" by simp
  have ne: "''/disks/data1'' \<noteq> ''''" by simp
  have nm: "map_of ?m ''name'' = Some (VString ''data1'')" by simp
  have nne: "''data1'' \<noteq> ''''" by simp
  have co: "map_of ?m ''create_option'' = Some (VString '''')" by simp
  have sz: "map_of ?m ''disk_size_gb'' = Some (VInt 10)" by simp
  have p: "ManagedDiskID ?deps ''/disks/data1'' = Inr ?pid" by simp
  have get: "DisksClient_Get ?deps (ManagedDiskId_ResourceGroup ?pid) (ManagedDiskId_Name ?pid)
               = (?disk, Some (ErrorString ''not found''))" by simp
  have shape: "map_of ?m ''lun'' = Some (VInt 0)"
    "map_of ?m ''caching'' = Some (VString ''ReadWrite'')"
    "map_of ?m ''storage_account_type'' = Some (VString ''Standard_LRS'')"
    "map_of ?m ''write_accelerator_enabled'' = Some (VBool False)"
    by simp_all
  have g': "GetOk ?d ''data_disk'' = (VList ([] @ VMap ?m # []), True)" by simp
  note t = data_disk_lookup_failure [OF g' mid ne p get,
      of 0 "''ReadWrite''" "''Standard_LRS''"]
  from t shape show ?thesis by simp
qed



text \<open>
  C4, as stated. \<^verbatim>\<open>expandVirtualMachineOSDisk\<close> does not return a disk for every input
  list: on the empty list \<^verbatim>\<open>input[0]\<close> panics.
\<close>

theorem expandVirtualMachineOSDisk_empty_counterexample:
  "expandVirtualMachineOSDisk [] ''Linux'' = Inl (Panic IndexOutOfRange)"
  by (simp add: expandVirtualMachineOSDisk_def index0_def)

text \<open>
  C4, amended. The expanders and flatteners other than the two that look a disk up make no
  call and read no state; a flattener has no failing step and returns a list for every API
  object, the empty list for nil. An expander returns a result on the inputs its schema
  describes: the capabilities expander on the empty list and on a list whose first mapping
  has a boolean \<open>ultra_ssd_enabled\<close>; the identity expander on the empty list, and on a list
  whose first mapping has a string \<open>type\<close> and a set of strings \<open>identity_ids\<close> it returns
  an identity or the validation error of C1; the network interface expander on every list
  of strings; the OS disk expander on every list whose first mapping carries the seven
  attributes of the schema with their types.
\<close>

theorem expanders_return_on_schema_shapes:
  "expandVirtualMachineAdditionalCapabilities [] = Inr \<lparr>UltraSSDEnabled = None\<rparr>
   \<and> (map_of caps ''ultra_ssd_enabled'' = Some (VBool b) \<longrightarrow>
        expandVirtualMachineAdditionalCapabilities (VMap caps # rest1)
          = Inr \<lparr>UltraSSDEnabled = Some b\<rparr>)
   \<and> flattenVirtualMachineAdditionalCapabilities None = []
   \<and> expandVirtualMachineIdentity []
        = Inr \<lparr>Identity_PrincipalID = None, Identity_TenantID = None,
               Identity_Type = ''None'', Identity_UserAssignedIdentities = None\<rparr>
   \<and> (map_of ident ''type'' = Some (VString t)
        \<and> map_of ident ''identity_ids'' = Some (VSet (map VString ids)) \<longrightarrow>
        (\<exists>identity. expandVirtualMachineIdentity (VMap ident # rest2) = Inr identity)
        \<or> expandVirtualMachineIdentity (VMap ident # rest2)
            = Inl (Failed (Errorf
                ''`identity_ids` can only be specified when `type` includes `UserAssigned`'' [])))
   \<and> flattenVirtualMachineIdentity range_order None = []
   \<and> (\<exists>refs. expandVirtualMachineNetworkInterfaceIDs (map VString nics) = Inr refs
               \<and> length refs = length nics)
   \<and> flattenVirtualMachineNetworkInterfaceIDs None = []
   \<and> (map_of raw ''caching'' = Some (VString caching)
        \<and> map_of raw ''storage_account_type'' = Some (VString sat)
        \<and> map_of raw ''write_accelerator_enabled'' = Some (VBool wa)
        \<and> map_of raw ''disk_size_gb'' = Some (VInt size_gb)
        \<and> map_of raw ''diff_disk_settings'' = Some (VList dds)
        \<and> (dds = [] \<or> (\<exists>dm tl. dds = VMap dm # tl
                                 \<and> map_of dm ''option'' = Some (VString opt)))
        \<and> map_of raw ''disk_encryption_set_id'' = Some (VString des)
        \<and> map_of raw ''name'' = Some (VString name) \<longrightarrow>
        (\<exists>disk. expandVirtualMachineOSDisk (VMap raw # rest3) osType = Inr disk))
   \<and> flattenVirtualMachineDataDisks None = []
   \<and> length (flattenVirtualMachineDataDisks (Some disks)) = length disks"
proof -
  have c1: "expandVirtualMachineAdditionalCapabilities [] = Inr \<lparr>UltraSSDEnabled = None\<rparr>"
    by (simp add: expandVirtualMachineAdditionalCapabilities_def)
  have c2: "map_of caps ''ultra_ssd_enabled'' = Some (VBool b) \<longrightarrow>
        expandVirtualMachineAdditionalCapabilities (VMap caps # rest1)
          = Inr \<lparr>UltraSSDEnabled = Some b\<rparr>"
    by (simp add: expandVirtualMachineAdditionalCapabilities_def index0_def index_map_Some)
  have c3: "flattenVirtualMachineAdditionalCapabilities None = []"
    by (simp add: flattenVirtualMachineAdditionalCapabilities_def)
  have i1: "expandVirtualMachineIdentity []
        = Inr \<lparr>Identity_PrincipalID = None, Identity_TenantID = None,
               Identity_Type = ''None'', Identity_UserAssignedIdentities = None\<rparr>"
    by (simp add: expandVirtualMachineIdentity_def ResourceIdentityTypeNone_def)
  have i2: "map_of ident ''type'' = Some (VString t)
        \<and> map_of ident ''identity_ids'' = Some (VSet (map VString ids)) \<longrightarrow>
        (\<exists>identity. expandVirtualMachineIdentity (VMap ident # rest2) = Inr identity)
        \<or> expandVirtualMachineIdentity (VMap ident # rest2)
            = Inl (Failed (Errorf
                ''`identity_ids` can only be specified when `type` includes `UserAssigned`'' []))"
    by (simp add: expandVirtualMachineIdentity_def index0_def index_map_Some Let_def
        identityIds_loop_strings)
  have i3: "flattenVirtualMachineIdentity range_order None = []"
    by (simp add: flattenVirtualMachineIdentity_def)
  have n1: "\<exists>refs. expandVirtualMachineNetworkInterfaceIDs (map VString nics) = Inr refs
               \<and> length refs = length nics"
    using expandVirtualMachineNetworkInterfaceIDs_loop_strings [of 0 nics "[]"]
    by (simp add: expandVirtualMachineNetworkInterfaceIDs_def)
  have n2: "flattenVirtualMachineNetworkInterfaceIDs None = []"
    by (simp add: flattenVirtualMachineNetworkInterfaceIDs_def)
  have o1: "map_of raw ''caching'' = Some (VString caching)
        \<and> map_of raw ''storage_account_type'' = Some (VString sat)
        \<and> map_of raw ''write_accelerator_enabled'' = Some (VBool wa)
        \<and> map_of raw ''disk_size_gb'' = Some (VInt size_gb)
        \<and> map_of raw ''diff_disk_settings'' = Some (VList dds)
        \<and> (dds = [] \<or> (\<exists>dm tl. dds = VMap dm # tl
                                 \<and> map_of dm ''option'' = Some (VString opt)))
        \<and> map_of raw ''disk_encryption_set_id'' = Some (VString des)
        \<and> map_of raw ''name'' = Some (VString name) \<longrightarrow>
        (\<exists>disk. expandVirtualMachineOSDisk (VMap raw # rest3) osType = Inr disk)"
    using expandVirtualMachineOSDisk_shaped
      [of raw caching sat wa size_gb dds opt des name rest3 osType]
    by blast
  have d1: "flattenVirtualMachineDataDisks None = []"
    by (simp add: flattenVirtualMachineDataDisks_def)
  have d2: "length (flattenVirtualMachineDataDisks (Some disks)) = length disks"
    by (simp add: flattenVirtualMachineDataDisks_def)
  from c1 c2 c3 i1 i2 i3 n1 n2 o1 d1 d2 show ?thesis
    by (intro conjI)
qed

theorem expanders_return_on_schema_shapes_witness:
  "expandVirtualMachineAdditionalCapabilities [VMap [(''ultra_ssd_enabled'', VBool True)]]
     = Inr \<lparr>UltraSSDEnabled = Some True\<rparr>
   \<and> ((\<exists>identity. expandVirtualMachineIdentity
          [VMap [(''type'', VString ''SystemAssigned''),
                 (''identity_ids'', VSet (map VString []))]] = Inr identity)
      \<or> expandVirtualMachineIdentity
          [VMap [(''type'', VString ''SystemAssigned''),
                 (''identity_ids'', VSet (map VString []))]]
          = Inl (Failed (Errorf
              ''`identity_ids` can only be specified when `type` includes `UserAssigned`'' [])))
   \<and> (\<exists>refs. expandVirtualMachineNetworkInterfaceIDs (map VString [''nic1'', ''nic2''])
                = Inr refs \<and> length refs = length [''nic1'', ''nic2''])
   \<and> (\<exists>disk. expandVirtualMachineOSDisk
          [VMap [(''caching'', VString ''ReadWrite''),
                 (''storage_account_type'', VString ''Premium_LRS''),
                 (''write_accelerator_enabled'', VBool False),
                 (''disk_size_gb'', VInt 30),
                 (''diff_disk_settings'', VList [VMap [(''option'', VString ''Local'')]]),
                 (''disk_encryption_set_id'', VString ''''),
                 (''name'', VString ''os'')]] ''Linux'' = Inr disk)"
  using expanders_return_on_schema_shapes
    [where caps = "[(''ultra_ssd_enabled'', VBool True)]" and b = True and ?rest1.0 = "[]"
       and ident = "[(''type'', VString ''SystemAssigned''),
                     (''identity_ids'', VSet (map VString []))]"
       and t = "''SystemAssigned''" and ids = "[]" and ?rest2.0 = "[]"
       and nics = "[''nic1'', ''nic2'']"
       and raw = "[(''caching'', VString ''ReadWrite''),
                 (''storage_account_type'', VString ''Premium_LRS''),
                 (''write_accelerator_enabled'', VBool False),
                 (''disk_size_gb'', VInt 30),
                 (''diff_disk_settings'', VList [VMap [(''option'', VString ''Local'')]]),
                 (''disk_encryption_set_id'', VString ''''),
                 (''name'', VString ''os'')]"
       and caching = "''ReadWrite''" and sat = "''Premium_LRS''" and wa = False
       and size_gb = 30 and dds = "[VMap [(''option'', VString ''Local'')]]"
       and opt = "''Local''" and des = "''''" and name = "''os''" and ?rest3.0 = "[]"
       and osType = "''Linux''" and disks = "[]"]
  by simp

end
